theory Spec2Isabelle
  imports Main "HOL-Library.Word"
begin

unbundle bit_operations_syntax

section \<open>Machine types\<close>

type_synonym uint8_t = "8 word"
type_synonym int32_t = "32 word"
type_synonym int64_t = "64 word"
type_synonym size_t = "64 word"

text \<open>Pointers are addresses; the objects they point to live in an explicit store.\<close>

type_synonym addr = nat

section \<open>The client publication (aeron_publication.c)\<close>

subsection \<open>Status codes and frame constants\<close>

text \<open>
  Modelled from the spec: the status codes come from the public header aeronc.h, which is
  not among the sources. The spec (section 7) names them as negative sentinels
  distinguishable from positions; the values are those of the public header.
\<close>

definition AERON_PUBLICATION_NOT_CONNECTED :: int64_t where
  "AERON_PUBLICATION_NOT_CONNECTED = - 1"

definition AERON_PUBLICATION_BACK_PRESSURED :: int64_t where
  "AERON_PUBLICATION_BACK_PRESSURED = - 2"

definition AERON_PUBLICATION_ADMIN_ACTION :: int64_t where
  "AERON_PUBLICATION_ADMIN_ACTION = - 3"

definition AERON_PUBLICATION_CLOSED :: int64_t where
  "AERON_PUBLICATION_CLOSED = - 4"

definition AERON_PUBLICATION_MAX_POSITION_EXCEEDED :: int64_t where
  "AERON_PUBLICATION_MAX_POSITION_EXCEEDED = - 5"

definition AERON_PUBLICATION_ERROR :: int64_t where
  "AERON_PUBLICATION_ERROR = - 6"

text \<open>
  Modelled from the spec: AERON_DATA_HEADER_LENGTH is the size of the frame header
  (section 3: frameLength 4, version 1, flags 1, type 2, termOffset 4, sessionId 4,
  streamId 4, termId 4, reservedValue 8 bytes); its header is not among the sources.
\<close>

definition AERON_DATA_HEADER_LENGTH :: size_t where
  "AERON_DATA_HEADER_LENGTH = 32"

datatype aeron_client_type = AERON_CLIENT_TYPE_PUBLICATION

subsection \<open>Shared memory reached through the publication's pointers\<close>

record aeron_logbuffer_metadata =
  term_tail_counters :: "nat \<Rightarrow> int64_t"
  active_term_count :: int32_t
  is_connected :: int32_t
  md_initial_term_id :: int32_t
  mtu_length :: int32_t
  term_length :: int32_t

record aeron_log_buffer =
  term_buffers :: "nat \<Rightarrow> uint8_t list"
  log_meta_data_addr :: addr

record memory =
  counter_values :: "addr \<Rightarrow> int64_t"
  log_buffers :: "addr \<Rightarrow> aeron_log_buffer"
  log_metadata :: "addr \<Rightarrow> aeron_logbuffer_metadata"

record aeron_publication =
  command_base_type :: aeron_client_type
  log_buffer :: addr
  log_meta_data :: addr
  position_limit :: addr
  channel_status_indicator :: addr
  conductor :: addr
  channel :: string
  registration_id :: int64_t
  original_registration_id :: int64_t
  stream_id :: int32_t
  session_id :: int32_t
  is_closed :: bool
  max_possible_position :: int64_t
  max_payload_length :: size_t
  max_message_length :: size_t
  position_bits_to_shift :: size_t
  initial_term_id :: int32_t

subsection \<open>Functions declared in headers that are not among the sources\<close>

text \<open>
  The term appender, the log-buffer descriptor helpers and the two inline position helpers
  of aeron_publication.h are called by the code below but defined elsewhere. They are taken
  as parameters: a term buffer and a tail counter are named by the address of their owner and
  the partition index; the appenders and \<open>new_position\<close> may change the shared memory,
  \<open>back_pressure_status\<close> only reads it. The type \<open>'r\<close> stands for the pair of the
  reserved-value supplier and its client data, \<open>'c\<close> for the buffer claim.
\<close>

record aeron_iovec_t =
  iov_base :: "uint8_t list"
  iov_len :: size_t

record ('r, 'c) publication_externals =
  aeron_frame_compute_max_message_length :: "size_t \<Rightarrow> size_t"
  aeron_number_of_trailing_zeroes :: "int32_t \<Rightarrow> int32_t"
  aeron_logbuffer_index_by_term_count :: "int32_t \<Rightarrow> nat"
  aeron_logbuffer_term_id :: "int64_t \<Rightarrow> int32_t"
  aeron_logbuffer_compute_term_begin_position :: "int32_t \<Rightarrow> size_t \<Rightarrow> int32_t \<Rightarrow> int64_t"
  aeron_term_appender_append_unfragmented_message ::
    "addr \<times> nat \<Rightarrow> addr \<times> nat \<Rightarrow> uint8_t list \<Rightarrow> size_t \<Rightarrow> 'r \<Rightarrow>
     int32_t \<Rightarrow> int32_t \<Rightarrow> int32_t \<Rightarrow> memory \<Rightarrow> int32_t \<times> memory"
  aeron_term_appender_append_fragmented_message ::
    "addr \<times> nat \<Rightarrow> addr \<times> nat \<Rightarrow> uint8_t list \<Rightarrow> size_t \<Rightarrow> size_t \<Rightarrow> 'r \<Rightarrow>
     int32_t \<Rightarrow> int32_t \<Rightarrow> int32_t \<Rightarrow> memory \<Rightarrow> int32_t \<times> memory"
  aeron_term_appender_append_unfragmented_messagev ::
    "addr \<times> nat \<Rightarrow> addr \<times> nat \<Rightarrow> aeron_iovec_t list \<Rightarrow> size_t \<Rightarrow> 'r \<Rightarrow>
     int32_t \<Rightarrow> int32_t \<Rightarrow> int32_t \<Rightarrow> memory \<Rightarrow> int32_t \<times> memory"
  aeron_term_appender_append_fragmented_messagev ::
    "addr \<times> nat \<Rightarrow> addr \<times> nat \<Rightarrow> aeron_iovec_t list \<Rightarrow> size_t \<Rightarrow> size_t \<Rightarrow> 'r \<Rightarrow>
     int32_t \<Rightarrow> int32_t \<Rightarrow> int32_t \<Rightarrow> memory \<Rightarrow> int32_t \<times> memory"
  aeron_term_appender_claim ::
    "addr \<times> nat \<Rightarrow> addr \<times> nat \<Rightarrow> size_t \<Rightarrow> 'c \<Rightarrow>
     int32_t \<Rightarrow> int32_t \<Rightarrow> int32_t \<Rightarrow> memory \<Rightarrow> int32_t \<times> 'c \<times> memory"
  aeron_publication_new_position ::
    "aeron_publication \<Rightarrow> int32_t \<Rightarrow> int32_t \<Rightarrow> int32_t \<Rightarrow> int64_t \<Rightarrow> int32_t \<Rightarrow>
     memory \<Rightarrow> int64_t \<times> memory"
  aeron_publication_back_pressure_status ::
    "aeron_publication \<Rightarrow> int64_t \<Rightarrow> int32_t \<Rightarrow> memory \<Rightarrow> int64_t"

subsection \<open>aeron_publication_create\<close>

text \<open>
  \<open>alloc\<close> is the outcome of \<open>aeron_alloc\<close>: \<open>None\<close> when the allocation fails. The result
  is the returned int and the value stored into \<open>*publication\<close> (\<open>None\<close> for NULL).
\<close>

definition aeron_publication_create ::
  "('r, 'c) publication_externals \<Rightarrow> addr option \<Rightarrow> addr \<Rightarrow> string \<Rightarrow> int32_t \<Rightarrow> int32_t \<Rightarrow>
   addr \<Rightarrow> addr \<Rightarrow> addr \<Rightarrow> int64_t \<Rightarrow> int64_t \<Rightarrow> memory \<Rightarrow> int \<times> aeron_publication option"
where
  "aeron_publication_create ext alloc conductor_p channel_p stream_id_v session_id_v
     position_limit_addr channel_status_addr log_buffer_p original_registration_id_v
     registration_id_v mem =
   (case alloc of
      None \<Rightarrow> (- 1, None)
    | Some _ \<Rightarrow>
       (let meta_addr = log_meta_data_addr (log_buffers mem log_buffer_p);
            md = log_metadata mem meta_addr;
            term_length_v = (scast (term_length md) :: size_t);
            pub = \<lparr> command_base_type = AERON_CLIENT_TYPE_PUBLICATION,
                    log_buffer = log_buffer_p,
                    log_meta_data = meta_addr,
                    position_limit = position_limit_addr,
                    channel_status_indicator = channel_status_addr,
                    conductor = conductor_p,
                    channel = channel_p,
                    registration_id = registration_id_v,
                    original_registration_id = original_registration_id_v,
                    stream_id = stream_id_v,
                    session_id = session_id_v,
                    is_closed = False,
                    max_possible_position = push_bit 31 term_length_v,
                    max_payload_length = scast (mtu_length md) - AERON_DATA_HEADER_LENGTH,
                    max_message_length = aeron_frame_compute_max_message_length ext term_length_v,
                    position_bits_to_shift =
                      scast (aeron_number_of_trailing_zeroes ext (ucast term_length_v)),
                    initial_term_id = md_initial_term_id md \<rparr>
        in (- 1, Some pub)))"

subsection \<open>Offering and claiming\<close>

text \<open>
  A NULL pointer argument is \<open>None\<close>. Every function returns its int64 result and the
  shared memory afterwards. \<open>aeron_counter_get_volatile\<close>,
  \<open>aeron_logbuffer_active_term_count\<close> and \<open>aeron_term_appender_raw_tail_volatile\<close> are
  plain reads of the store. The subtraction of term ids wraps in 32 bits; positions are
  compared as signed 64-bit values, lengths as unsigned.
\<close>

definition aeron_publication_offer ::
  "('r, 'c) publication_externals \<Rightarrow> aeron_publication option \<Rightarrow> uint8_t list option \<Rightarrow>
   size_t \<Rightarrow> 'r \<Rightarrow> memory \<Rightarrow> int64_t \<times> memory"
where
  "aeron_publication_offer ext publication buffer length_v supplier mem =
     (case (publication, buffer) of
        (Some pub, Some buf) \<Rightarrow>
          if \<not> is_closed pub then
            (let limit = counter_values mem (position_limit pub);
                 term_count = active_term_count (log_metadata mem (log_meta_data pub));
                 index = aeron_logbuffer_index_by_term_count ext term_count;
                 raw_tail = term_tail_counters (log_metadata mem (log_meta_data pub)) index;
                 term_offset = raw_tail AND 0xFFFFFFFF;
                 term_id = aeron_logbuffer_term_id ext raw_tail;
                 position = aeron_logbuffer_compute_term_begin_position ext
                              term_id (position_bits_to_shift pub) (initial_term_id pub)
             in if term_count \<noteq> term_id - initial_term_id pub
                then (AERON_PUBLICATION_ADMIN_ACTION, mem)
                else if position <s limit then
                  (if length_v \<le> max_payload_length pub then
                     (let (resulting_offset, mem') =
                            aeron_term_appender_append_unfragmented_message ext
                              (log_buffer pub, index) (log_meta_data pub, index)
                              buf length_v supplier term_id (session_id pub) (stream_id pub) mem
                      in aeron_publication_new_position ext pub term_count (ucast term_offset)
                           term_id position resulting_offset mem')
                   else if length_v > max_message_length pub
                     then (AERON_PUBLICATION_ERROR, mem)
                   else
                     (let (resulting_offset, mem') =
                            aeron_term_appender_append_fragmented_message ext
                              (log_buffer pub, index) (log_meta_data pub, index)
                              buf length_v (max_payload_length pub) supplier term_id
                              (session_id pub) (stream_id pub) mem
                      in aeron_publication_new_position ext pub term_count (ucast term_offset)
                           term_id position resulting_offset mem'))
                else (aeron_publication_back_pressure_status ext pub position (ucast length_v) mem,
                      mem))
          else (AERON_PUBLICATION_CLOSED, mem)
      | _ \<Rightarrow> (AERON_PUBLICATION_ERROR, mem))"

text \<open>\<open>iov\<close> is the array \<open>iov[0 .. iovcnt - 1]\<close>; the sum of the lengths wraps as
  \<open>size_t\<close> does.\<close>

definition aeron_publication_offerv ::
  "('r, 'c) publication_externals \<Rightarrow> aeron_publication option \<Rightarrow> aeron_iovec_t list option \<Rightarrow>
   'r \<Rightarrow> memory \<Rightarrow> int64_t \<times> memory"
where
  "aeron_publication_offerv ext publication iov supplier mem =
     (case (publication, iov) of
        (Some pub, Some iovs) \<Rightarrow>
          (let length_v = fold (\<lambda>v acc. acc + iov_len v) iovs (0 :: size_t) in
           if \<not> is_closed pub then
            (let limit = counter_values mem (position_limit pub);
                 term_count = active_term_count (log_metadata mem (log_meta_data pub));
                 index = aeron_logbuffer_index_by_term_count ext term_count;
                 raw_tail = term_tail_counters (log_metadata mem (log_meta_data pub)) index;
                 term_offset = raw_tail AND 0xFFFFFFFF;
                 term_id = aeron_logbuffer_term_id ext raw_tail;
                 position = aeron_logbuffer_compute_term_begin_position ext
                              term_id (position_bits_to_shift pub) (initial_term_id pub)
             in if term_count \<noteq> term_id - initial_term_id pub
                then (AERON_PUBLICATION_ADMIN_ACTION, mem)
                else if position <s limit then
                  (if length_v \<le> max_payload_length pub then
                     (let (resulting_offset, mem') =
                            aeron_term_appender_append_unfragmented_messagev ext
                              (log_buffer pub, index) (log_meta_data pub, index)
                              iovs length_v supplier term_id (session_id pub) (stream_id pub) mem
                      in aeron_publication_new_position ext pub term_count (ucast term_offset)
                           term_id position resulting_offset mem')
                   else if length_v > max_message_length pub
                     then (AERON_PUBLICATION_ERROR, mem)
                   else
                     (let (resulting_offset, mem') =
                            aeron_term_appender_append_fragmented_messagev ext
                              (log_buffer pub, index) (log_meta_data pub, index)
                              iovs length_v (max_payload_length pub) supplier term_id
                              (session_id pub) (stream_id pub) mem
                      in aeron_publication_new_position ext pub term_count (ucast term_offset)
                           term_id position resulting_offset mem'))
                else (aeron_publication_back_pressure_status ext pub position (ucast length_v) mem,
                      mem))
           else (AERON_PUBLICATION_CLOSED, mem))
      | _ \<Rightarrow> (AERON_PUBLICATION_ERROR, mem))"

text \<open>The claim function also returns the contents of \<open>*buffer_claim\<close> afterwards.\<close>

definition aeron_publication_try_claim ::
  "('r, 'c) publication_externals \<Rightarrow> aeron_publication option \<Rightarrow> size_t \<Rightarrow> 'c option \<Rightarrow>
   memory \<Rightarrow> int64_t \<times> 'c option \<times> memory"
where
  "aeron_publication_try_claim ext publication length_v buffer_claim mem =
     (case (publication, buffer_claim) of
        (Some pub, Some claim) \<Rightarrow>
          if length_v > max_payload_length pub then (AERON_PUBLICATION_ERROR, buffer_claim, mem)
          else if \<not> is_closed pub then
            (let limit = counter_values mem (position_limit pub);
                 term_count = active_term_count (log_metadata mem (log_meta_data pub));
                 index = aeron_logbuffer_index_by_term_count ext term_count;
                 raw_tail = term_tail_counters (log_metadata mem (log_meta_data pub)) index;
                 term_offset = raw_tail AND 0xFFFFFFFF;
                 term_id = aeron_logbuffer_term_id ext raw_tail;
                 position = aeron_logbuffer_compute_term_begin_position ext
                              term_id (position_bits_to_shift pub) (initial_term_id pub)
             in if term_count \<noteq> term_id - initial_term_id pub
                then (AERON_PUBLICATION_ADMIN_ACTION, buffer_claim, mem)
                else if position <s limit then
                  (let (resulting_offset, claim', mem') =
                         aeron_term_appender_claim ext
                           (log_buffer pub, index) (log_meta_data pub, index)
                           length_v claim term_id (session_id pub) (stream_id pub) mem;
                       (new_position, mem'') =
                         aeron_publication_new_position ext pub term_count (ucast term_offset)
                           term_id position resulting_offset mem'
                   in (new_position, Some claim', mem''))
                else (aeron_publication_back_pressure_status ext pub position (ucast length_v) mem,
                      buffer_claim, mem))
          else (AERON_PUBLICATION_CLOSED, buffer_claim, mem)
      | _ \<Rightarrow> (AERON_PUBLICATION_ERROR, buffer_claim, mem))"

subsection \<open>What a call observes\<close>

text \<open>The values the three functions read before they decide, named for the statements
  below.\<close>

definition observed_term_count :: "aeron_publication \<Rightarrow> memory \<Rightarrow> int32_t" where
  "observed_term_count pub mem = active_term_count (log_metadata mem (log_meta_data pub))"

definition observed_index :: "('r, 'c) publication_externals \<Rightarrow> aeron_publication \<Rightarrow> memory \<Rightarrow> nat" where
  "observed_index ext pub mem =
     aeron_logbuffer_index_by_term_count ext (observed_term_count pub mem)"

definition observed_raw_tail ::
  "('r, 'c) publication_externals \<Rightarrow> aeron_publication \<Rightarrow> memory \<Rightarrow> int64_t"
where
  "observed_raw_tail ext pub mem =
     term_tail_counters (log_metadata mem (log_meta_data pub)) (observed_index ext pub mem)"

definition observed_term_id ::
  "('r, 'c) publication_externals \<Rightarrow> aeron_publication \<Rightarrow> memory \<Rightarrow> int32_t"
where
  "observed_term_id ext pub mem = aeron_logbuffer_term_id ext (observed_raw_tail ext pub mem)"

definition observed_position ::
  "('r, 'c) publication_externals \<Rightarrow> aeron_publication \<Rightarrow> memory \<Rightarrow> int64_t"
where
  "observed_position ext pub mem =
     aeron_logbuffer_compute_term_begin_position ext (observed_term_id ext pub mem)
       (position_bits_to_shift pub) (initial_term_id pub)"

definition term_count_matches ::
  "('r, 'c) publication_externals \<Rightarrow> aeron_publication \<Rightarrow> memory \<Rightarrow> bool"
where
  "term_count_matches ext pub mem \<longleftrightarrow>
     observed_term_count pub mem = observed_term_id ext pub mem - initial_term_id pub"

definition below_limit ::
  "('r, 'c) publication_externals \<Rightarrow> aeron_publication \<Rightarrow> memory \<Rightarrow> bool"
where
  "below_limit ext pub mem \<longleftrightarrow>
     observed_position ext pub mem <s counter_values mem (position_limit pub)"


text \<open>
  The position computed from the current tail, as section 3 of the specification defines
  it: the position of the beginning of the term plus the tail offset.
\<close>

definition observed_tail_position ::
  "('r, 'c) publication_externals \<Rightarrow> aeron_publication \<Rightarrow> memory \<Rightarrow> int64_t"
where
  "observed_tail_position ext pub mem =
     observed_position ext pub mem + (observed_raw_tail ext pub mem AND 0xFFFFFFFF)"




subsection \<open>A reference environment for the examples\<close>

text \<open>
  Modelled from the spec: the helpers that the sources only declare, as far as the spec
  describes them. Section 3: the tail counter holds \<open>(termId << 32) | tailOffset\<close>,
  \<open>activeTermCount mod 3\<close> selects the active term, a position is
  \<open>((termId - initialTermId) << positionBitsToShift) + termOffset\<close>,
  \<open>maxMessageLength = min(termLength/8, 16 MiB)\<close> and frames are aligned to 32 bytes.
  Section 4.1: an append adds the aligned frame length (for a fragmented message the sum
  over its frames) to the tail counter and returns the offset past the frames, or TRIPPED when
  the term would overflow; on TRIPPED the publication rotates the log and reports an admin
  action; at or past the limit the caller reports back pressure. Only the reservation of
  the tail is modelled, the bytes stored into the term buffer are not. A buffer claim is the
  pair of the claimed offset and length.
\<close>

definition AERON_TERM_APPENDER_TRIPPED :: int32_t where
  "AERON_TERM_APPENDER_TRIPPED = - 1"

fun count_trailing_zeroes :: "nat \<Rightarrow> nat \<Rightarrow> nat" where
  "count_trailing_zeroes 0 n = 0"
| "count_trailing_zeroes (Suc fuel) n =
     (if odd n then 0 else Suc (count_trailing_zeroes fuel (n div 2)))"

definition align32 :: "size_t \<Rightarrow> size_t" where
  "align32 n = (n + 31) AND NOT 31"

definition reserve_tail :: "addr \<times> nat \<Rightarrow> size_t \<Rightarrow> memory \<Rightarrow> int32_t \<times> memory" where
  "reserve_tail tail required mem =
     (let md = log_metadata mem (fst tail);
          raw_tail = term_tail_counters md (snd tail);
          term_offset = raw_tail AND 0xFFFFFFFF;
          md' = md\<lparr> term_tail_counters := (term_tail_counters md)(snd tail := raw_tail + required) \<rparr>;
          mem' = mem\<lparr> log_metadata := (log_metadata mem)(fst tail := md') \<rparr>
      in if scast (term_length md) < term_offset + required
         then (AERON_TERM_APPENDER_TRIPPED, mem')
         else (ucast (term_offset + required), mem'))"

definition fragmented_length :: "size_t \<Rightarrow> size_t \<Rightarrow> size_t" where
  "fragmented_length length_v max_payload =
     (length_v div max_payload) * align32 (max_payload + AERON_DATA_HEADER_LENGTH) +
     (if length_v mod max_payload = 0 then 0
      else align32 (length_v mod max_payload + AERON_DATA_HEADER_LENGTH))"

definition rotate_log :: "aeron_publication \<Rightarrow> int32_t \<Rightarrow> int32_t \<Rightarrow> memory \<Rightarrow> memory" where
  "rotate_log pub term_count term_id mem =
     (let md = log_metadata mem (log_meta_data pub);
          next_index = nat (sint (term_count + 1) mod 3);
          md' = md\<lparr> term_tail_counters :=
                       (term_tail_counters md)(next_index := push_bit 32 (scast (term_id + 1))),
                     active_term_count := term_count + 1 \<rparr>
      in mem\<lparr> log_metadata := (log_metadata mem)(log_meta_data pub := md') \<rparr>)"

definition reference_externals :: "(unit, nat \<times> nat) publication_externals" where
  "reference_externals =
     \<lparr> aeron_frame_compute_max_message_length = (\<lambda>term_length_v. min (term_length_v div 8) 16777216),
       aeron_number_of_trailing_zeroes = (\<lambda>v. of_nat (count_trailing_zeroes 32 (unat v))),
       aeron_logbuffer_index_by_term_count = (\<lambda>term_count. nat (sint term_count mod 3)),
       aeron_logbuffer_term_id = (\<lambda>raw_tail. ucast (drop_bit 32 raw_tail)),
       aeron_logbuffer_compute_term_begin_position =
         (\<lambda>term_id shift initial. push_bit (unat shift) (scast (term_id - initial))),
       aeron_term_appender_append_unfragmented_message =
         (\<lambda>term tail buf length_v supplier term_id session stream.
            reserve_tail tail (align32 (length_v + AERON_DATA_HEADER_LENGTH))),
       aeron_term_appender_append_fragmented_message =
         (\<lambda>term tail buf length_v max_payload supplier term_id session stream.
            reserve_tail tail (fragmented_length length_v max_payload)),
       aeron_term_appender_append_unfragmented_messagev =
         (\<lambda>term tail iovs length_v supplier term_id session stream.
            reserve_tail tail (align32 (length_v + AERON_DATA_HEADER_LENGTH))),
       aeron_term_appender_append_fragmented_messagev =
         (\<lambda>term tail iovs length_v max_payload supplier term_id session stream.
            reserve_tail tail (fragmented_length length_v max_payload)),
       aeron_term_appender_claim =
         (\<lambda>term tail length_v claim term_id session stream mem.
            (let (resulting_offset, mem') =
                   reserve_tail tail (align32 (length_v + AERON_DATA_HEADER_LENGTH)) mem
             in (resulting_offset,
                 (unat (term_tail_counters (log_metadata mem (fst tail)) (snd tail)
                          AND 0xFFFFFFFF), unat length_v),
                 mem'))),
       aeron_publication_new_position =
         (\<lambda>pub term_count term_offset term_id position resulting_offset mem.
            if 0 <s resulting_offset then (position + scast resulting_offset, mem)
            else (AERON_PUBLICATION_ADMIN_ACTION, rotate_log pub term_count term_id mem)),
       aeron_publication_back_pressure_status =
         (\<lambda>pub position message_length mem. AERON_PUBLICATION_BACK_PRESSURED) \<rparr>"

text \<open>
  A publication over a log of 64 KiB terms with an MTU of 1408 (payloads of up to 1376 bytes,
  messages of up to 8192) and initial term id 5, its limit counter at address 1 and its
  log at addresses 2 and 3, and a memory in which the active term count is \<open>count\<close>,
  every tail counter holds term id 5 at offset 0 and the limit is \<open>limit\<close>.
\<close>

definition example_publication :: aeron_publication where
  "example_publication =
     \<lparr> command_base_type = AERON_CLIENT_TYPE_PUBLICATION,
       log_buffer = 2, log_meta_data = 3, position_limit = 1, channel_status_indicator = 4,
       conductor = 5, channel = ''aeron:udp?endpoint=127.0.0.1:40123'',
       registration_id = 11, original_registration_id = 11,
       stream_id = 1001, session_id = 7, is_closed = False,
       max_possible_position = 140737488355328, max_payload_length = 1376,
       max_message_length = 8192, position_bits_to_shift = 16, initial_term_id = 5 \<rparr>"

definition example_metadata :: "int32_t \<Rightarrow> aeron_logbuffer_metadata" where
  "example_metadata count =
     \<lparr> term_tail_counters = (\<lambda>i. 21474836480), active_term_count = count, is_connected = 1,
       md_initial_term_id = 5, mtu_length = 1408, term_length = 65536 \<rparr>"

definition example_memory :: "int32_t \<Rightarrow> int64_t \<Rightarrow> memory" where
  "example_memory count limit =
     \<lparr> counter_values = (\<lambda>a. limit),
       log_buffers = (\<lambda>a. \<lparr> term_buffers = (\<lambda>i. replicate 65536 0), log_meta_data_addr = 3 \<rparr>),
       log_metadata = (\<lambda>a. example_metadata count) \<rparr>"

text \<open>
  The same memory with active term count 0, every tail counter holding \<open>raw_tail\<close> and
  the limit \<open>limit\<close>.
\<close>

definition example_memory_tail :: "int64_t \<Rightarrow> int64_t \<Rightarrow> memory" where
  "example_memory_tail raw_tail limit =
     \<lparr> counter_values = (\<lambda>a. limit),
       log_buffers = (\<lambda>a. \<lparr> term_buffers = (\<lambda>i. replicate 65536 0), log_meta_data_addr = 3 \<rparr>),
       log_metadata = (\<lambda>a. (example_metadata 0)\<lparr> term_tail_counters := (\<lambda>i. raw_tail) \<rparr>) \<rparr>"

section \<open>String utilities (aeron_strutil.c)\<close>

subsection \<open>aeron_tokenise\<close>

text \<open>
  A C string is the list of the bytes at its address; \<open>strlen\<close> counts up to the first
  NUL. A pointer into the input is its offset, and the \<open>tokens\<close> array is a map from
  indices to such pointers. \<open>EINVAL\<close> and \<open>ERANGE\<close> have their Linux values.
\<close>

definition NUL :: char where
  "NUL = CHR 0x00"

definition EINVAL :: int where
  "EINVAL = 22"

definition ERANGE :: int where
  "ERANGE = 34"

definition INT32_MAX :: nat where
  "INT32_MAX = 2147483647"

definition strlen :: "char list \<Rightarrow> nat" where
  "strlen buf = length (takeWhile (\<lambda>c. c \<noteq> NUL) buf)"

text \<open>
  The loop \<open>for (int i = (int)len; --i != -1;)\<close>: the counter \<open>Suc i\<close> stands for the
  iteration at index \<open>i\<close>, the counter \<open>0\<close> for the exit. The \<open>break\<close> with
  \<open>-ERANGE\<close> leaves the loop at once.
\<close>

fun tokenise_loop ::
  "char \<Rightarrow> int \<Rightarrow> nat \<Rightarrow> char list \<Rightarrow> (nat \<rightharpoonup> nat) \<Rightarrow> int \<Rightarrow>
   int \<times> char list \<times> (nat \<rightharpoonup> nat)"
where
  "tokenise_loop delimiter max_tokens 0 input tokens num_tokens = (num_tokens, input, tokens)"
| "tokenise_loop delimiter max_tokens (Suc i) input tokens num_tokens =
     (let input1 = (if delimiter = input ! i then input[i := NUL] else input) in
      if i = 0 \<and> input1 ! i \<noteq> NUL then
        (if max_tokens \<le> num_tokens then (- ERANGE, input1, tokens)
         else tokenise_loop delimiter max_tokens i input1
                (tokens(nat num_tokens \<mapsto> i)) (num_tokens + 1))
      else if input1 ! i = NUL \<and> input1 ! (i + 1) \<noteq> NUL then
        (if max_tokens \<le> num_tokens then (- ERANGE, input1, tokens)
         else tokenise_loop delimiter max_tokens i input1
                (tokens(nat num_tokens \<mapsto> i + 1)) (num_tokens + 1))
      else tokenise_loop delimiter max_tokens i input1 tokens num_tokens)"

text \<open>The result is the returned int, the input buffer afterwards (\<open>None\<close> for a NULL
  input) and the \<open>tokens\<close> array afterwards.\<close>

definition aeron_tokenise ::
  "char list option \<Rightarrow> char \<Rightarrow> int \<Rightarrow> (nat \<rightharpoonup> nat) \<Rightarrow>
   int \<times> char list option \<times> (nat \<rightharpoonup> nat)"
where
  "aeron_tokenise input delimiter max_tokens tokens =
     (case input of
        None \<Rightarrow> (- EINVAL, None, tokens)
      | Some buf \<Rightarrow>
         (let len = strlen buf in
          if INT32_MAX < len then (- EINVAL, Some buf, tokens)
          else if 0 = len then (0, Some buf, tokens)
          else (case tokenise_loop delimiter max_tokens len buf tokens 0 of
                  (n, buf', tokens') \<Rightarrow> (n, Some buf', tokens'))))"

subsection \<open>Tokens in the words of the specification\<close>

text \<open>
  \<open>split_on d s\<close> cuts \<open>s\<close> at every delimiter; the tokens are the pieces that are not
  empty. \<open>string_at buf p\<close> is the C string that starts at offset \<open>p\<close>, and
  \<open>pointed_strings buf tokens n\<close> lists the strings that the first \<open>n\<close> entries of the
  array point to.
\<close>

fun split_on :: "char \<Rightarrow> string \<Rightarrow> string list" where
  "split_on d [] = [[]]"
| "split_on d (c # cs) =
     (if c = d then [] # split_on d cs
      else (c # hd (split_on d cs)) # tl (split_on d cs))"

definition nonempty_tokens :: "char \<Rightarrow> string \<Rightarrow> string list" where
  "nonempty_tokens d s = filter (\<lambda>t. t \<noteq> []) (split_on d s)"

definition string_at :: "char list \<Rightarrow> nat \<Rightarrow> string" where
  "string_at buf p = takeWhile (\<lambda>c. c \<noteq> NUL) (drop p buf)"

definition replace_delimiter :: "char \<Rightarrow> char \<Rightarrow> char" where
  "replace_delimiter d c = (if c = d then NUL else c)"

definition pointed_strings :: "char list \<Rightarrow> (nat \<rightharpoonup> nat) \<Rightarrow> nat \<Rightarrow> string option list" where
  "pointed_strings buf tokens n = map (\<lambda>k. map_option (string_at buf) (tokens k)) [0..<n]"

subsection \<open>The loop seen from the end of the string\<close>

text \<open>
  For the proofs: with the part of the string still to visit reversed as \<open>c # r\<close> and the
  part already visited as \<open>ys\<close>, \<open>reg_at\<close> is the pointer (and the token it points to)
  that the iteration at \<open>c\<close> stores, \<open>regs\<close> lists what the remaining iterations store,
  in order, and \<open>store\<close> writes such a list into the array.
\<close>

definition reg_at :: "char \<Rightarrow> char \<Rightarrow> char list \<Rightarrow> char list \<Rightarrow> (nat \<times> string) option" where
  "reg_at d c r ys =
     (if r = [] \<and> c \<noteq> d then Some (0, c # takeWhile (\<lambda>x. x \<noteq> d) ys)
      else if c = d \<and> ys \<noteq> [] \<and> hd ys \<noteq> d
        then Some (Suc (length r), takeWhile (\<lambda>x. x \<noteq> d) ys)
      else None)"

fun regs :: "char \<Rightarrow> char list \<Rightarrow> char list \<Rightarrow> (nat \<times> string) list" where
  "regs d [] ys = []"
| "regs d (c # r) ys =
     (case reg_at d c r ys of None \<Rightarrow> [] | Some x \<Rightarrow> [x]) @ regs d r (c # ys)"

fun store :: "(nat \<rightharpoonup> nat) \<Rightarrow> nat \<Rightarrow> nat list \<Rightarrow> (nat \<rightharpoonup> nat)" where
  "store toks n [] = toks"
| "store toks n (p # ps) = store (toks(n \<mapsto> p)) (Suc n) ps"

subsection \<open>aeron_format_to_hex\<close>

definition table :: "char list" where
  "table = ''0123456789abcdef''"

text \<open>
  \<open>str\<close> collects the characters stored so far; as the loop stores at \<open>j\<close>, \<open>j + 1\<close> and
  advances \<open>j\<close> by two from zero, \<open>j\<close> is always its length. The result is the string that
  the final \<open>str[j] = '\0'\<close> terminates.
\<close>

function aeron_format_to_hex_loop ::
  "nat \<Rightarrow> uint8_t list \<Rightarrow> nat \<Rightarrow> nat \<Rightarrow> nat \<Rightarrow> string \<Rightarrow> string"
where
  "aeron_format_to_hex_loop str_length data data_len i j str =
     (if i < data_len \<and> j < str_length then
        (let c_high = table ! unat (drop_bit 4 (data ! i) AND 0x0F);
             c_low = table ! unat ((data ! i) AND 0x0F)
         in aeron_format_to_hex_loop str_length data data_len (i + 1) (j + 2)
              (str @ [c_high, c_low]))
      else str)"
  by pat_completeness auto
termination
  by (relation "measure (\<lambda>(str_length, data, data_len, i, j, str). data_len - i)") auto

declare aeron_format_to_hex_loop.simps [simp del]

definition aeron_format_to_hex :: "nat \<Rightarrow> uint8_t list \<Rightarrow> nat \<Rightarrow> string" where
  "aeron_format_to_hex str_length data data_len =
     aeron_format_to_hex_loop str_length data data_len 0 0 []"

subsection \<open>The C library's formatted output\<close>

text \<open>
  \<open>snprintf buf n s\<close>: the text \<open>s\<close> that the format expands to is stored into a buffer
  of \<open>n\<close> bytes holding \<open>buf\<close>, cut to \<open>n - 1\<close> characters (nothing is stored when
  \<open>n\<close> is zero); the returned value is the length of the whole text. \<open>decimal_nat\<close> and
  \<open>decimal_int\<close> are the conversions \<open>%d\<close> performs.
\<close>

definition snprintf :: "string \<Rightarrow> nat \<Rightarrow> string \<Rightarrow> int \<times> string" where
  "snprintf buf n s = (int (length s), if n = 0 then buf else take (n - 1) s)"

definition digit_char :: "nat \<Rightarrow> char" where
  "digit_char n = ''0123456789'' ! n"

function decimal_nat :: "nat \<Rightarrow> string" where
  "decimal_nat n = (if n < 10 then [digit_char n] else decimal_nat (n div 10) @ [digit_char (n mod 10)])"
  by pat_completeness auto
termination
  by (relation "measure (\<lambda>n. n)") auto

declare decimal_nat.simps [simp del]

definition decimal_int :: "int \<Rightarrow> string" where
  "decimal_int i = (if i < 0 then CHR ''-'' # decimal_nat (nat (- i)) else decimal_nat (nat i))"

section \<open>UDP channels (aeron_udp_channel.c)\<close>

subsection \<open>Socket addresses\<close>

text \<open>
  A \<open>struct sockaddr_storage\<close> is read by the code through its family and, after a cast,
  through the fields of \<open>struct sockaddr_in\<close> or \<open>struct sockaddr_in6\<close>. The record has
  the family and the fields of both views; the overlay of the two views in memory is not
  modelled. Ports are kept as the two bytes in network order, addresses as their raw bytes
  (4 for \<open>sin_addr\<close>, 16 for \<open>sin6_addr\<close>).
\<close>

datatype sa_family_t = AF_UNSPEC | AF_INET | AF_INET6 | AF_OTHER nat

type_synonym in_port_t = "uint8_t \<times> uint8_t"

record sockaddr_storage =
  ss_family :: sa_family_t
  sin_port :: in_port_t
  sin_addr :: "uint8_t list"
  sin6_port :: in_port_t
  sin6_addr :: "uint8_t list"

definition ntohs :: "in_port_t \<Rightarrow> 16 word" where
  "ntohs p = of_nat (256 * unat (fst p) + unat (snd p))"

definition htons :: "16 word \<Rightarrow> in_port_t" where
  "htons p = (ucast (drop_bit 8 p), ucast p)"

definition sizeof_in_addr :: nat where
  "sizeof_in_addr = 4"

definition sizeof_in6_addr :: nat where
  "sizeof_in6_addr = 16"

definition in6addr_any :: "uint8_t list" where
  "in6addr_any = replicate 16 0"

definition INADDR_ANY :: "uint8_t list" where
  "INADDR_ANY = replicate 4 0"

text \<open>The storage after \<open>memset(&addr, 0, sizeof(addr))\<close>.\<close>

definition zeroed_sockaddr :: sockaddr_storage where
  "zeroed_sockaddr = \<lparr> ss_family = AF_UNSPEC, sin_port = (0, 0), sin_addr = replicate 4 0,
                        sin6_port = (0, 0), sin6_addr = replicate 16 0 \<rparr>"

subsection \<open>Multicast control address\<close>

text \<open>Each function returns its int result and the contents of \<open>*control_addr\<close> afterwards.\<close>

definition aeron_ipv4_multicast_control_address ::
  "sockaddr_storage \<Rightarrow> sockaddr_storage \<Rightarrow> int \<times> sockaddr_storage"
where
  "aeron_ipv4_multicast_control_address data_addr control_addr =
     (let addr_len = sizeof_in_addr;
          last_byte_index = addr_len - 1;
          bytes = take addr_len (sin_addr data_addr)
      in if (bytes ! last_byte_index) AND 0x1 = 0 then (- 1, control_addr)
         else
           (let bytes' = bytes[last_byte_index := bytes ! last_byte_index + 1]
            in (0, control_addr\<lparr> ss_family := ss_family data_addr,
                                 sin_addr := bytes',
                                 sin_port := sin_port data_addr \<rparr>)))"

definition aeron_ipv6_multicast_control_address ::
  "sockaddr_storage \<Rightarrow> sockaddr_storage \<Rightarrow> int \<times> sockaddr_storage"
where
  "aeron_ipv6_multicast_control_address data_addr control_addr =
     (let addr_len = sizeof_in6_addr;
          last_byte_index = addr_len - 1;
          bytes = take addr_len (sin6_addr data_addr)
      in if (bytes ! last_byte_index) AND 0x1 = 0 then (- 1, control_addr)
         else
           (let bytes' = bytes[last_byte_index := bytes ! last_byte_index + 1]
            in (0, control_addr\<lparr> ss_family := ss_family data_addr,
                                 sin6_addr := bytes',
                                 sin6_port := sin6_port data_addr \<rparr>)))"

definition aeron_multicast_control_address ::
  "sockaddr_storage \<Rightarrow> sockaddr_storage \<Rightarrow> int \<times> sockaddr_storage"
where
  "aeron_multicast_control_address data_addr control_addr =
     (if AF_INET6 = ss_family data_addr
        then aeron_ipv6_multicast_control_address data_addr control_addr
      else if AF_INET = ss_family data_addr
        then aeron_ipv4_multicast_control_address data_addr control_addr
      else (- 1, control_addr))"

subsection \<open>Canonical form\<close>

text \<open>
  \<open>hex_length\<close> is the size of the two local hex buffers,
  \<open>AERON_FORMAT_HEX_LENGTH(sizeof(struct sockaddr_in6))\<close>; the macro is defined in a header
  that is not among the sources, so the size is a parameter. The static counter
  \<open>unique_canonical_form_value\<close> is passed in and returned; \<open>canonical_form\<close> is the
  previous content of the destination buffer. The result is the returned int, the new
  content of the buffer and the new value of the counter.
\<close>

definition aeron_uri_udp_canonicalise ::
  "nat \<Rightarrow> string \<Rightarrow> nat \<Rightarrow> sockaddr_storage \<Rightarrow> sockaddr_storage \<Rightarrow> bool \<Rightarrow> int32_t \<Rightarrow>
   int \<times> string \<times> int32_t"
where
  "aeron_uri_udp_canonicalise hex_length canonical_form length_v local_data remote_data
     make_unique unique_canonical_form_value =
     (let (local_data_addr, local_data_port, local_data_length) =
            (if AF_INET6 = ss_family local_data
             then (sin6_addr local_data, ntohs (sin6_port local_data), sizeof_in6_addr)
             else (sin_addr local_data, ntohs (sin_port local_data), sizeof_in_addr));
          (remote_data_addr, remote_data_port, remote_data_length) =
            (if AF_INET6 = ss_family remote_data
             then (sin6_addr remote_data, ntohs (sin6_port remote_data), sizeof_in6_addr)
             else (sin_addr remote_data, ntohs (sin_port remote_data), sizeof_in_addr));
          local_data_str = aeron_format_to_hex hex_length local_data_addr local_data_length;
          remote_data_str = aeron_format_to_hex hex_length remote_data_addr remote_data_length;
          (unique_suffix, counter') =
            (if make_unique
             then (snd (snprintf [] (4 * 4 - 1)
                          (''-'' @ decimal_int (sint unique_canonical_form_value))),
                   unique_canonical_form_value + 1)
             else ([], unique_canonical_form_value));
          (ret, form) =
            snprintf canonical_form length_v
              (''UDP-'' @ local_data_str @ ''-'' @ decimal_nat (unat local_data_port) @ ''-'' @
               remote_data_str @ ''-'' @ decimal_nat (unat remote_data_port) @ unique_suffix)
      in (ret, form, counter'))"

subsection \<open>Channel URIs (aeron_uri.h)\<close>

definition AERON_UDP_CHANNEL_CONTROL_MODE_MANUAL_VALUE :: string where
  "AERON_UDP_CHANNEL_CONTROL_MODE_MANUAL_VALUE = ''manual''"

definition AERON_UDP_CHANNEL_CONTROL_MODE_DYNAMIC_VALUE :: string where
  "AERON_UDP_CHANNEL_CONTROL_MODE_DYNAMIC_VALUE = ''dynamic''"

text \<open>A \<open>const char *\<close> parameter is \<open>None\<close> when it is NULL.\<close>

record aeron_udp_channel_params_t =
  endpoint :: "string option"
  bind_interface :: "string option"
  control :: "string option"
  control_mode :: "string option"
  channel_tag :: "string option"
  entity_tag :: "string option"
  ttl :: "string option"
  additional_params :: "(string \<times> string) list"

datatype aeron_uri_type_t = AERON_URI_UDP | AERON_URI_IPC | AERON_URI_UNKNOWN

record aeron_uri_t =
  mutable_uri :: string
  uri_type :: aeron_uri_type_t
  params_udp :: aeron_udp_channel_params_t

record aeron_udp_channel_t =
  uri :: aeron_uri_t
  original_uri :: string
  uri_length :: nat
  has_explicit_control :: bool
  is_manual_control_mode :: bool
  is_dynamic_control_mode :: bool
  is_multicast :: bool
  tag_id :: int64_t
  remote_data :: sockaddr_storage
  remote_control :: sockaddr_storage
  local_data :: sockaddr_storage
  local_control :: sockaddr_storage
  interface_index :: nat
  multicast_ttl :: uint8_t
  canonical_form :: string
  canonical_length :: nat

subsection \<open>Functions and sizes defined outside the sources\<close>

text \<open>
  The URI parser, the resolver and the interface lookup are declared in headers whose
  implementation is not among the sources, as are the sizes of the character arrays of the
  channel; they are parameters. A function that fails returns \<open>None\<close> (a negative int in
  C).
\<close>

record udp_channel_externals =
  aeron_uri_parse :: "nat \<Rightarrow> string \<Rightarrow> aeron_uri_t option"
  aeron_host_and_port_parse_and_resolve :: "string \<Rightarrow> sockaddr_storage option"
  aeron_set_ipv4_wildcard_host_and_port :: "sockaddr_storage \<Rightarrow> sockaddr_storage"
  aeron_uri_parse_tag :: "string \<Rightarrow> int64_t"
  AERON_URI_INVALID_TAG :: int64_t
  aeron_is_addr_multicast :: "sockaddr_storage \<Rightarrow> bool"
  aeron_find_interface :: "string \<Rightarrow> (sockaddr_storage \<times> nat) option"
  aeron_interface_parse_and_resolve :: "string \<Rightarrow> (sockaddr_storage \<times> nat) option"
  aeron_is_wildcard_addr :: "sockaddr_storage \<Rightarrow> bool"
  aeron_uri_multicast_ttl :: "aeron_uri_t \<Rightarrow> uint8_t"
  format_hex_length :: nat
  sizeof_original_uri :: nat
  sizeof_canonical_form :: nat

subsection \<open>Interface selection\<close>

text \<open>
  Both functions return \<open>None\<close> for a negative result and otherwise the contents of
  \<open>*interface_addr\<close> and \<open>*interface_index\<close>.
\<close>

definition aeron_find_multicast_interface ::
  "udp_channel_externals \<Rightarrow> sa_family_t \<Rightarrow> string option \<Rightarrow> (sockaddr_storage \<times> nat) option"
where
  "aeron_find_multicast_interface ext family interface_str =
     (let wildcard_str = (if AF_INET6 = family then ''[0::]/0'' else ''0.0.0.0/0'')
      in aeron_find_interface ext
           (case interface_str of None \<Rightarrow> wildcard_str | Some s \<Rightarrow> s))"

definition aeron_find_unicast_interface ::
  "udp_channel_externals \<Rightarrow> sa_family_t \<Rightarrow> string option \<Rightarrow> sockaddr_storage \<Rightarrow>
   (sockaddr_storage \<times> nat) option"
where
  "aeron_find_unicast_interface ext family interface_str interface_addr =
     (case interface_str of
        Some s \<Rightarrow>
          (case aeron_interface_parse_and_resolve ext s of
             Some (tmp_addr, prefixlen) \<Rightarrow>
               if aeron_is_wildcard_addr ext tmp_addr then Some (tmp_addr, 0)
               else aeron_find_interface ext s
           | None \<Rightarrow> aeron_find_interface ext s)
      | None \<Rightarrow>
          if AF_INET6 = family
          then Some (interface_addr\<lparr> ss_family := AF_INET6, sin6_addr := in6addr_any,
                                      sin6_port := htons 0 \<rparr>, 0)
          else Some (interface_addr\<lparr> ss_family := AF_INET, sin_addr := INADDR_ANY,
                                      sin_port := htons 0 \<rparr>, 0))"

subsection \<open>aeron_udp_channel_parse\<close>

text \<open>
  \<open>alloc\<close> is the outcome of \<open>aeron_alloc\<close>: \<open>None\<close> when it fails, otherwise the
  fresh channel structure. \<open>channel_before\<close> is the content of \<open>*channel\<close> at the call
  (\<open>None\<close> for NULL) and \<open>unique\<close> the static counter of the canonical form. The result is
  the returned int, \<open>*channel\<close> afterwards and the counter. \<open>memcpy\<close> of an address of
  \<open>AERON_ADDR_LEN\<close> bytes is the assignment of the address. Every \<open>goto error_cleanup\<close>
  is \<open>udp_channel_error_cleanup\<close>.
\<close>

definition udp_channel_error_cleanup ::
  "int32_t \<Rightarrow> int \<times> aeron_udp_channel_t option \<times> int32_t"
where
  "udp_channel_error_cleanup unique = (- 1, None, unique)"

definition udp_channel_multicast ::
  "udp_channel_externals \<Rightarrow> aeron_udp_channel_t \<Rightarrow> sockaddr_storage \<Rightarrow> int32_t \<Rightarrow>
   int \<times> aeron_udp_channel_t option \<times> int32_t"
where
  "udp_channel_multicast ext ch endpoint_addr unique =
     (let ch1 = ch\<lparr> remote_data := endpoint_addr \<rparr>;
          (rc, control_addr) = aeron_multicast_control_address endpoint_addr (remote_control ch1)
      in if rc < 0 then udp_channel_error_cleanup unique
         else
           (case aeron_find_multicast_interface ext (ss_family endpoint_addr)
                   (bind_interface (params_udp (uri ch1))) of
              None \<Rightarrow> udp_channel_error_cleanup unique
            | Some (interface_addr, interface_index_v) \<Rightarrow>
                (let (ret, form, unique') =
                       aeron_uri_udp_canonicalise (format_hex_length ext) (canonical_form ch1)
                         (sizeof_canonical_form ext) interface_addr endpoint_addr False unique;
                     ch2 = ch1\<lparr> remote_control := control_addr,
                                 interface_index := interface_index_v,
                                 multicast_ttl := aeron_uri_multicast_ttl ext (uri ch1),
                                 local_data := interface_addr,
                                 local_control := interface_addr,
                                 canonical_form := form,
                                 canonical_length := length form,
                                 is_multicast := True \<rparr>
                 in (0, Some ch2, unique'))))"

definition udp_channel_explicit_control ::
  "udp_channel_externals \<Rightarrow> aeron_udp_channel_t \<Rightarrow> sockaddr_storage \<Rightarrow> sockaddr_storage \<Rightarrow>
   int32_t \<Rightarrow> int \<times> aeron_udp_channel_t option \<times> int32_t"
where
  "udp_channel_explicit_control ext ch endpoint_addr explicit_control_addr unique =
     (let (ret, form, unique') =
            aeron_uri_udp_canonicalise (format_hex_length ext) (canonical_form ch)
              (sizeof_canonical_form ext) explicit_control_addr endpoint_addr False unique;
          ch1 = ch\<lparr> interface_index := 0,
                     multicast_ttl := 0,
                     remote_data := endpoint_addr,
                     remote_control := endpoint_addr,
                     local_data := explicit_control_addr,
                     local_control := explicit_control_addr,
                     canonical_form := form,
                     canonical_length := length form,
                     has_explicit_control := True \<rparr>
      in (0, Some ch1, unique'))"

definition udp_channel_unicast ::
  "udp_channel_externals \<Rightarrow> aeron_udp_channel_t \<Rightarrow> sockaddr_storage \<Rightarrow> sockaddr_storage \<Rightarrow>
   bool \<Rightarrow> int32_t \<Rightarrow> int \<times> aeron_udp_channel_t option \<times> int32_t"
where
  "udp_channel_unicast ext ch endpoint_addr interface_addr0
     has_no_distinguishing_characteristic unique =
     (case aeron_find_unicast_interface ext (ss_family endpoint_addr)
             (bind_interface (params_udp (uri ch))) interface_addr0 of
        None \<Rightarrow> udp_channel_error_cleanup unique
      | Some (interface_addr, interface_index_v) \<Rightarrow>
          (let (ret, form, unique') =
                 aeron_uri_udp_canonicalise (format_hex_length ext) (canonical_form ch)
                   (sizeof_canonical_form ext) interface_addr endpoint_addr
                   has_no_distinguishing_characteristic unique;
               ch1 = ch\<lparr> interface_index := interface_index_v,
                          multicast_ttl := 0,
                          remote_data := endpoint_addr,
                          remote_control := endpoint_addr,
                          local_data := interface_addr,
                          local_control := interface_addr,
                          canonical_form := form,
                          canonical_length := length form \<rparr>
           in (0, Some ch1, unique')))"

definition udp_channel_resolve ::
  "udp_channel_externals \<Rightarrow> aeron_udp_channel_t \<Rightarrow> bool \<Rightarrow> int32_t \<Rightarrow>
   int \<times> aeron_udp_channel_t option \<times> int32_t"
where
  "udp_channel_resolve ext ch has_no_distinguishing_characteristic unique =
     (let p = params_udp (uri ch) in
      case (case endpoint p of
              Some e \<Rightarrow> aeron_host_and_port_parse_and_resolve ext e
            | None \<Rightarrow> Some (aeron_set_ipv4_wildcard_host_and_port ext zeroed_sockaddr)) of
        None \<Rightarrow> udp_channel_error_cleanup unique
      | Some endpoint_addr \<Rightarrow>
         (case (case control p of
                  Some c \<Rightarrow> aeron_host_and_port_parse_and_resolve ext c
                | None \<Rightarrow> Some zeroed_sockaddr) of
            None \<Rightarrow> udp_channel_error_cleanup unique
          | Some explicit_control_addr \<Rightarrow>
             (let tag = (case channel_tag p of
                           Some t \<Rightarrow> aeron_uri_parse_tag ext t
                         | None \<Rightarrow> tag_id ch);
                  ch1 = ch\<lparr> tag_id := tag \<rparr>
              in if channel_tag p \<noteq> None \<and> tag = AERON_URI_INVALID_TAG ext
                 then udp_channel_error_cleanup unique
                 else if aeron_is_addr_multicast ext endpoint_addr
                   then udp_channel_multicast ext ch1 endpoint_addr unique
                 else if control p \<noteq> None
                   then udp_channel_explicit_control ext ch1 endpoint_addr explicit_control_addr
                          unique
                 else udp_channel_unicast ext ch1 endpoint_addr zeroed_sockaddr
                        has_no_distinguishing_characteristic unique)))"

definition aeron_udp_channel_parse ::
  "udp_channel_externals \<Rightarrow> aeron_udp_channel_t option \<Rightarrow> nat \<Rightarrow> string \<Rightarrow>
   aeron_udp_channel_t option \<Rightarrow> int32_t \<Rightarrow> int \<times> aeron_udp_channel_t option \<times> int32_t"
where
  "aeron_udp_channel_parse ext alloc uri_length_v uri_v channel_before unique =
     (case alloc of
        None \<Rightarrow> (- 1, channel_before, unique)
      | Some fresh \<Rightarrow>
         (case aeron_uri_parse ext uri_length_v uri_v of
            None \<Rightarrow> udp_channel_error_cleanup unique
          | Some parsed \<Rightarrow>
             (let copy_length =
                    (if uri_length_v < sizeof_original_uri ext - 1 then uri_length_v
                     else sizeof_original_uri ext - 1);
                  ch = fresh\<lparr> uri := parsed,
                               original_uri := take copy_length uri_v,
                               uri_length := copy_length,
                               has_explicit_control := False,
                               is_manual_control_mode := False,
                               is_dynamic_control_mode := False,
                               is_multicast := False,
                               tag_id := AERON_URI_INVALID_TAG ext \<rparr>
              in if uri_type (uri ch) \<noteq> AERON_URI_UDP then udp_channel_error_cleanup unique
                 else
                   (let p = params_udp (uri ch);
                        ch1 = (case control_mode p of
                                 None \<Rightarrow> ch
                               | Some m \<Rightarrow>
                                   ch\<lparr> is_manual_control_mode :=
                                          (m = AERON_UDP_CHANNEL_CONTROL_MODE_MANUAL_VALUE),
                                        is_dynamic_control_mode :=
                                          (m = AERON_UDP_CHANNEL_CONTROL_MODE_DYNAMIC_VALUE) \<rparr>)
                    in if is_dynamic_control_mode ch1 \<and> control p = None
                       then udp_channel_error_cleanup unique
                       else
                         (let has_no_distinguishing_characteristic =
                                (endpoint p = None \<and> control p = None \<and> channel_tag p = None)
                          in if has_no_distinguishing_characteristic \<and>
                                \<not> is_manual_control_mode ch1
                             then udp_channel_error_cleanup unique
                             else udp_channel_resolve ext ch1
                                    has_no_distinguishing_characteristic unique)))))"

subsection \<open>Vocabulary for the statements about UDP channels\<close>

text \<open>The canonical form in the words of the specification: lower-case hex of the raw
  address bytes, decimal ports, and a unique suffix on request.\<close>

definition hex_digit :: "nat \<Rightarrow> char" where
  "hex_digit n = ''0123456789abcdef'' ! n"

definition hex_encode :: "uint8_t list \<Rightarrow> string" where
  "hex_encode bs = concat (map (\<lambda>b. [hex_digit (unat b div 16), hex_digit (unat b mod 16)]) bs)"

definition sockaddr_resolved :: "sockaddr_storage \<Rightarrow> bool" where
  "sockaddr_resolved a \<longleftrightarrow>
     (ss_family a = AF_INET \<and> length (sin_addr a) = 4) \<or>
     (ss_family a = AF_INET6 \<and> length (sin6_addr a) = 16)"

definition raw_address :: "sockaddr_storage \<Rightarrow> uint8_t list" where
  "raw_address a = (if ss_family a = AF_INET6 then sin6_addr a else sin_addr a)"

definition port_number :: "sockaddr_storage \<Rightarrow> nat" where
  "port_number a = unat (ntohs (if ss_family a = AF_INET6 then sin6_port a else sin_port a))"

definition canonical_string ::
  "sockaddr_storage \<Rightarrow> sockaddr_storage \<Rightarrow> bool \<Rightarrow> int32_t \<Rightarrow> string"
where
  "canonical_string local remote make_unique n =
     ''UDP-'' @ hex_encode (raw_address local) @ ''-'' @ decimal_nat (port_number local) @ ''-'' @
     hex_encode (raw_address remote) @ ''-'' @ decimal_nat (port_number remote) @
     (if make_unique then ''-'' @ decimal_int (sint n) else [])"

subsection \<open>Example addresses and an example environment\<close>

text \<open>The addresses 0.0.0.0:0, 127.0.0.1:40123 and 224.0.1.1:40123.\<close>

definition example_local :: sockaddr_storage where
  "example_local = \<lparr> ss_family = AF_INET, sin_port = (0, 0), sin_addr = [0, 0, 0, 0],
                      sin6_port = (0, 0), sin6_addr = replicate 16 0 \<rparr>"

definition example_remote :: sockaddr_storage where
  "example_remote = \<lparr> ss_family = AF_INET, sin_port = (0x9C, 0xBB), sin_addr = [127, 0, 0, 1],
                       sin6_port = (0, 0), sin6_addr = replicate 16 0 \<rparr>"

definition example_multicast :: sockaddr_storage where
  "example_multicast = \<lparr> ss_family = AF_INET, sin_port = (0x9C, 0xBB), sin_addr = [224, 0, 1, 1],
                          sin6_port = (0, 0), sin6_addr = replicate 16 0 \<rparr>"

text \<open>
  An environment for the examples: its URI parser knows the two URIs \<open>aeron:udp\<close> and
  \<open>aeron:udp?control-mode=dynamic\<close>, nothing resolves and no interface is found. The
  sizes are those of a 384-byte path and of the hex text of 28 bytes with its terminator.
\<close>

definition no_udp_params :: aeron_udp_channel_params_t where
  "no_udp_params = \<lparr> endpoint = None, bind_interface = None, control = None,
                       control_mode = None, channel_tag = None, entity_tag = None, ttl = None,
                       additional_params = [] \<rparr>"

definition example_uri_parse :: "nat \<Rightarrow> string \<Rightarrow> aeron_uri_t option" where
  "example_uri_parse n s =
     (if s = ''aeron:udp''
        then Some \<lparr> mutable_uri = s, uri_type = AERON_URI_UDP, params_udp = no_udp_params \<rparr>
      else if s = ''aeron:udp?control-mode=dynamic''
        then Some \<lparr> mutable_uri = s, uri_type = AERON_URI_UDP,
                    params_udp = no_udp_params\<lparr> control_mode := Some ''dynamic'' \<rparr> \<rparr>
      else None)"

definition example_udp_externals :: udp_channel_externals where
  "example_udp_externals =
     \<lparr> aeron_uri_parse = example_uri_parse,
       aeron_host_and_port_parse_and_resolve = (\<lambda>s. None),
       aeron_set_ipv4_wildcard_host_and_port = (\<lambda>a. a\<lparr> ss_family := AF_INET \<rparr>),
       aeron_uri_parse_tag = (\<lambda>s. - 1),
       AERON_URI_INVALID_TAG = - 1,
       aeron_is_addr_multicast = (\<lambda>a. False),
       aeron_find_interface = (\<lambda>s. None),
       aeron_interface_parse_and_resolve = (\<lambda>s. None),
       aeron_is_wildcard_addr = (\<lambda>a. False),
       aeron_uri_multicast_ttl = (\<lambda>u. 0),
       format_hex_length = 57,
       sizeof_original_uri = 384,
       sizeof_canonical_form = 384 \<rparr>"

definition fresh_channel :: aeron_udp_channel_t where
  "fresh_channel =
     \<lparr> uri = \<lparr> mutable_uri = [], uri_type = AERON_URI_UNKNOWN, params_udp = no_udp_params \<rparr>,
       original_uri = [], uri_length = 0, has_explicit_control = False,
       is_manual_control_mode = False, is_dynamic_control_mode = False, is_multicast = False,
       tag_id = 0, remote_data = zeroed_sockaddr, remote_control = zeroed_sockaddr,
       local_data = zeroed_sockaddr, local_control = zeroed_sockaddr, interface_index = 0,
       multicast_ttl = 0, canonical_form = [], canonical_length = 0 \<rparr>"

section \<open>Session-id selection in the driver conductor\<close>

text \<open>
  Modelled from the spec: the conductor (aeron_driver_conductor.c) is not among the sources,
  only its tests are. Section 4.2, session-id selection: ``Maintain nextSessionId. On
  allocation, skip values in [reservedLow, reservedHigh] and any sessionId already used on
  the same (endpoint, streamId). Wrap INT32_MAX to INT32_MIN.'' The fields are named as the
  tests name them; a publication is recorded by its endpoint, stream id and session id.
  Skipping is a loop over candidates that may not end when no value is free, so the
  selection returns an option.
\<close>

record network_publication =
  pub_endpoint :: nat
  pub_stream_id :: int32_t
  pub_session_id :: int32_t

record driver_conductor =
  next_session_id :: int32_t
  publication_reserved_session_id_low :: int32_t
  publication_reserved_session_id_high :: int32_t
  network_publications :: "network_publication list"

definition session_id_reserved :: "driver_conductor \<Rightarrow> int32_t \<Rightarrow> bool" where
  "session_id_reserved c sid \<longleftrightarrow>
     publication_reserved_session_id_low c \<le>s sid \<and>
     sid \<le>s publication_reserved_session_id_high c"

definition session_id_in_use :: "driver_conductor \<Rightarrow> nat \<Rightarrow> int32_t \<Rightarrow> int32_t \<Rightarrow> bool" where
  "session_id_in_use c e stream sid \<longleftrightarrow>
     list_ex (\<lambda>p. pub_endpoint p = e \<and> pub_stream_id p = stream \<and> pub_session_id p = sid)
       (network_publications c)"

definition advance_session_id :: "int32_t \<Rightarrow> int32_t" where
  "advance_session_id sid = sid + 1"

partial_function (option) skip_session_ids ::
  "driver_conductor \<Rightarrow> nat \<Rightarrow> int32_t \<Rightarrow> int32_t \<Rightarrow> int32_t option"
where
  "skip_session_ids c e stream candidate =
     (if session_id_reserved c candidate \<or> session_id_in_use c e stream candidate
      then skip_session_ids c e stream (advance_session_id candidate)
      else Some candidate)"

definition assign_dynamic_session_id ::
  "driver_conductor \<Rightarrow> nat \<Rightarrow> int32_t \<Rightarrow> (int32_t \<times> driver_conductor) option"
where
  "assign_dynamic_session_id c e stream =
     (case skip_session_ids c e stream (next_session_id c) of
        None \<Rightarrow> None
      | Some sid \<Rightarrow>
          Some (sid, c\<lparr> next_session_id := advance_session_id sid,
                        network_publications :=
                          \<lparr> pub_endpoint = e, pub_stream_id = stream, pub_session_id = sid \<rparr>
                          # network_publications c \<rparr>))"

definition INT32_MAX_word :: int32_t where
  "INT32_MAX_word = 0x7FFFFFFF"

definition INT32_MIN_word :: int32_t where
  "INT32_MIN_word = 0x80000000"

text \<open>The conductor of the test with session-id wrapping: ids INT32_MAX - 1, INT32_MAX,
  INT32_MIN and INT32_MIN + 1 are in use on one endpoint and stream, the next id is
  INT32_MAX - 1 and nothing is reserved around it.\<close>

definition wrapping_test_conductor :: driver_conductor where
  "wrapping_test_conductor =
     \<lparr> next_session_id = 0x7FFFFFFE,
       publication_reserved_session_id_low = 0xFFFFFFFF,
       publication_reserved_session_id_high = 1000,
       network_publications =
         [\<lparr> pub_endpoint = 7, pub_stream_id = 1001, pub_session_id = 0x80000001 \<rparr>,
          \<lparr> pub_endpoint = 7, pub_stream_id = 1001, pub_session_id = 0x80000000 \<rparr>,
          \<lparr> pub_endpoint = 7, pub_stream_id = 1001, pub_session_id = 0x7FFFFFFF \<rparr>,
          \<lparr> pub_endpoint = 7, pub_stream_id = 1001, pub_session_id = 0x7FFFFFFE \<rparr>] \<rparr>"

definition session_id_free :: "driver_conductor \<Rightarrow> nat \<Rightarrow> int32_t \<Rightarrow> int32_t \<Rightarrow> bool" where
  "session_id_free c e stream sid \<longleftrightarrow>
     \<not> session_id_reserved c sid \<and> \<not> session_id_in_use c e stream sid"

section \<open>Results about the client publication\<close>

lemmas observed_defs = observed_term_count_def observed_index_def observed_raw_tail_def
  observed_term_id_def observed_position_def term_count_matches_def below_limit_def

lemmas status_defs = AERON_PUBLICATION_NOT_CONNECTED_def AERON_PUBLICATION_BACK_PRESSURED_def
  AERON_PUBLICATION_ADMIN_ACTION_def AERON_PUBLICATION_CLOSED_def
  AERON_PUBLICATION_MAX_POSITION_EXCEEDED_def AERON_PUBLICATION_ERROR_def

lemmas reference_defs = reference_externals_def example_publication_def example_memory_def
  example_metadata_def

lemma example_observations:
  "observed_term_count example_publication (example_memory c l) = c"
  "observed_term_id reference_externals example_publication (example_memory c l) = 5"
  "observed_position reference_externals example_publication (example_memory c l) = 0"
  "counter_values (example_memory c l) (position_limit example_publication) = l"
  "is_closed example_publication = False"
  "initial_term_id example_publication = 5"
  "max_payload_length example_publication = 1376"
  "max_message_length example_publication = 8192"
  by (simp_all add: observed_defs reference_defs)

text \<open>
  C1, as the code behaves. The claim is that aeron_publication_create returns 0 whenever the
  allocation succeeds and a publication is stored into \<open>*publication\<close>. The code stores
  the publication and then returns -1, the value of the allocation-failure path: for every
  call in which the allocation succeeds the result is -1, not 0, although \<open>*publication\<close>
  is not NULL.
\<close>

theorem aeron_publication_create_success_returns_minus_one:
  "fst (aeron_publication_create ext (Some a) cp ch sid ssid pl cs lb orid rid mem) = - 1 \<and>
   snd (aeron_publication_create ext (Some a) cp ch sid ssid pl cs lb orid rid mem) \<noteq> None \<and>
   fst (aeron_publication_create ext (Some a) cp ch sid ssid pl cs lb orid rid mem) \<noteq> 0"
  by (simp add: aeron_publication_create_def Let_def)



lemma offer_cases:
  "aeron_publication_offer ext (Some pub) (Some buf) length_v supplier mem =
     (if is_closed pub then (AERON_PUBLICATION_CLOSED, mem)
      else if \<not> term_count_matches ext pub mem then (AERON_PUBLICATION_ADMIN_ACTION, mem)
      else if \<not> below_limit ext pub mem
        then (aeron_publication_back_pressure_status ext pub (observed_position ext pub mem)
                (ucast length_v) mem, mem)
      else if length_v \<le> max_payload_length pub
        then (let (resulting_offset, mem') =
                    aeron_term_appender_append_unfragmented_message ext
                      (log_buffer pub, observed_index ext pub mem)
                      (log_meta_data pub, observed_index ext pub mem)
                      buf length_v supplier (observed_term_id ext pub mem)
                      (session_id pub) (stream_id pub) mem
              in aeron_publication_new_position ext pub (observed_term_count pub mem)
                   (ucast (observed_raw_tail ext pub mem AND 0xFFFFFFFF))
                   (observed_term_id ext pub mem) (observed_position ext pub mem)
                   resulting_offset mem')
      else if max_message_length pub < length_v then (AERON_PUBLICATION_ERROR, mem)
      else (let (resulting_offset, mem') =
                  aeron_term_appender_append_fragmented_message ext
                    (log_buffer pub, observed_index ext pub mem)
                    (log_meta_data pub, observed_index ext pub mem)
                    buf length_v (max_payload_length pub) supplier (observed_term_id ext pub mem)
                    (session_id pub) (stream_id pub) mem
            in aeron_publication_new_position ext pub (observed_term_count pub mem)
                 (ucast (observed_raw_tail ext pub mem AND 0xFFFFFFFF))
                 (observed_term_id ext pub mem) (observed_position ext pub mem)
                 resulting_offset mem'))"
  by (simp add: aeron_publication_offer_def observed_defs Let_def)

















lemma offer_compares_term_begin_position:
  assumes "\<not> is_closed pub" and "term_count_matches ext pub mem" and "below_limit ext pub mem"
    and "length_v \<le> max_payload_length pub"
  shows "aeron_publication_offer ext (Some pub) (Some buf) length_v supplier mem =
           (let (resulting_offset, mem') =
                  aeron_term_appender_append_unfragmented_message ext
                    (log_buffer pub, observed_index ext pub mem)
                    (log_meta_data pub, observed_index ext pub mem)
                    buf length_v supplier (observed_term_id ext pub mem)
                    (session_id pub) (stream_id pub) mem
            in aeron_publication_new_position ext pub (observed_term_count pub mem)
                 (ucast (observed_raw_tail ext pub mem AND 0xFFFFFFFF))
                 (observed_term_id ext pub mem) (observed_position ext pub mem)
                 resulting_offset mem')"
  using assms by (simp add: offer_cases)

lemma tail_example_observations:
  "observed_term_count example_publication (example_memory_tail t l) = 0"
  "observed_index reference_externals example_publication (example_memory_tail t l) = 0"
  "observed_raw_tail reference_externals example_publication (example_memory_tail t l) = t"
  "counter_values (example_memory_tail t l) (position_limit example_publication) = l"
  "log_meta_data example_publication = 3"
  "log_buffer example_publication = 2"
  by (simp_all add: observed_defs reference_externals_def example_publication_def
        example_memory_tail_def example_metadata_def)

text \<open>
  C3, as the code behaves. The claim is that a call on an open publication whose position
  computed from the current tail is at or past the position limit performs no append and
  returns the back-pressure status. The code compares the position of the beginning of the
  term with the limit and leaves the tail offset, which it has computed, out of the
  comparison. On the open example publication with matching term count, the tail at offset
  1024 of the first term and the limit at 512, the position of the tail is 1024, at or past
  the limit; yet the offer of three bytes calls the appender, which moves the tail counter
  by 64 bytes, and returns position 1088 where the back-pressure status is expected.
\<close>

theorem offer_appends_past_limit:
  "\<not> is_closed example_publication \<and>
   term_count_matches reference_externals example_publication
     (example_memory_tail 21474837504 512) \<and>
   observed_tail_position reference_externals example_publication
     (example_memory_tail 21474837504 512) = 1024 \<and>
   counter_values (example_memory_tail 21474837504 512) (position_limit example_publication) = 512 \<and>
   \<not> observed_tail_position reference_externals example_publication
       (example_memory_tail 21474837504 512) <s
     counter_values (example_memory_tail 21474837504 512) (position_limit example_publication) \<and>
   fst (aeron_publication_offer reference_externals (Some example_publication) (Some [1, 2, 3]) 3 ()
          (example_memory_tail 21474837504 512)) = 1088 \<and>
   term_tail_counters (log_metadata (example_memory_tail 21474837504 512) 3) 0 = 21474837504 \<and>
   term_tail_counters
     (log_metadata
        (snd (aeron_publication_offer reference_externals (Some example_publication)
                (Some [1, 2, 3]) 3 () (example_memory_tail 21474837504 512))) 3) 0 = 21474837568 \<and>
   aeron_publication_back_pressure_status reference_externals example_publication
     (observed_tail_position reference_externals example_publication
        (example_memory_tail 21474837504 512)) 3 (example_memory_tail 21474837504 512) =
     AERON_PUBLICATION_BACK_PRESSURED"
proof -
  let ?M = "example_memory_tail 21474837504 512"
  have tid: "observed_term_id reference_externals example_publication ?M = 5"
    by (simp add: observed_term_id_def tail_example_observations) (simp add: reference_externals_def)
  have pos: "observed_position reference_externals example_publication ?M = 0"
    by (simp add: observed_position_def tid) (simp add: reference_externals_def example_publication_def)
  have tp: "observed_tail_position reference_externals example_publication ?M = 1024"
    by (simp add: observed_tail_position_def pos tail_example_observations)
  have a: "\<not> is_closed example_publication"
    and len: "(3 :: size_t) \<le> max_payload_length example_publication"
    by (simp_all add: example_publication_def)
  have m: "term_count_matches reference_externals example_publication ?M"
    by (simp add: term_count_matches_def tid tail_example_observations)
       (simp add: example_publication_def)
  have b: "below_limit reference_externals example_publication ?M"
    by (simp add: below_limit_def pos tail_example_observations word_sless_alt)
  have app: "aeron_term_appender_append_unfragmented_message reference_externals t (3, 0) buf 3
               s tid' ses str mm = reserve_tail (3, 0) 64 mm" for t buf s tid' ses str mm
    by (simp add: reference_externals_def align32_def AERON_DATA_HEADER_LENGTH_def)
  have res: "reserve_tail (3, 0) 64 ?M =
     (1088, ?M\<lparr> log_metadata := (log_metadata ?M)
        (3 := (log_metadata ?M 3)\<lparr> term_tail_counters :=
                 (term_tail_counters (log_metadata ?M 3))(0 := 21474837568) \<rparr>) \<rparr>)"
    by (simp add: reserve_tail_def example_memory_tail_def example_metadata_def Let_def)
  have np: "aeron_publication_new_position reference_externals p tc t_off tid' 0 1088 mm = (1088, mm)"
    for p tc t_off tid' mm
    by (simp add: reference_externals_def word_sless_alt)
  have off: "aeron_publication_offer reference_externals (Some example_publication)
               (Some [1, 2, 3]) 3 () ?M =
             (1088, ?M\<lparr> log_metadata := (log_metadata ?M)
        (3 := (log_metadata ?M 3)\<lparr> term_tail_counters :=
                 (term_tail_counters (log_metadata ?M 3))(0 := 21474837568) \<rparr>) \<rparr>)"
    by (simp add: offer_compares_term_begin_position [OF a m b len] tail_example_observations
          app res np tid pos)
  have bp: "aeron_publication_back_pressure_status reference_externals p q r mm =
            AERON_PUBLICATION_BACK_PRESSURED" for p q r mm
    by (simp add: reference_externals_def)
  have before: "term_tail_counters (log_metadata ?M 3) 0 = 21474837504"
    by (simp add: example_memory_tail_def example_metadata_def)
  show ?thesis
    using a m tp
    by (simp add: off bp before tail_example_observations word_sless_alt)
qed

text \<open>
  C4, amended. On an open publication whose active term count differs from the term id of the
  selected tail counter minus the initial term id, aeron_publication_offer and
  aeron_publication_offerv (with non-NULL arguments) return AERON_PUBLICATION_ADMIN_ACTION and
  leave the shared memory unchanged; aeron_publication_try_claim does so when its length does
  not exceed \<open>max_payload_length\<close>.
\<close>

theorem admin_action_on_term_count_mismatch:
  assumes "\<not> is_closed pub" and "\<not> term_count_matches ext pub mem"
  shows "aeron_publication_offer ext (Some pub) (Some buf) length_v supplier mem =
           (AERON_PUBLICATION_ADMIN_ACTION, mem) \<and>
         aeron_publication_offerv ext (Some pub) (Some iovs) supplier mem =
           (AERON_PUBLICATION_ADMIN_ACTION, mem) \<and>
         (length_v \<le> max_payload_length pub \<longrightarrow>
          aeron_publication_try_claim ext (Some pub) length_v (Some claim) mem =
            (AERON_PUBLICATION_ADMIN_ACTION, Some claim, mem))"
  using assms
  by (auto simp: aeron_publication_try_claim_def aeron_publication_offer_def
        aeron_publication_offerv_def observed_defs Let_def)

text \<open>
  C4, witness: the example memory with active term count 1 while the tail counters hold the
  initial term id.
\<close>

theorem admin_action_on_term_count_mismatch_witness:
  "\<not> is_closed example_publication \<and>
   \<not> term_count_matches reference_externals example_publication (example_memory 1 65536) \<and>
   aeron_publication_offer reference_externals (Some example_publication) (Some [1, 2, 3]) 3 ()
     (example_memory 1 65536) = (AERON_PUBLICATION_ADMIN_ACTION, example_memory 1 65536) \<and>
   aeron_publication_try_claim reference_externals (Some example_publication) 3 (Some (0, 0))
     (example_memory 1 65536) = (AERON_PUBLICATION_ADMIN_ACTION, Some (0, 0), example_memory 1 65536)"
proof -
  have a: "\<not> is_closed example_publication"
    and b: "\<not> term_count_matches reference_externals example_publication (example_memory 1 65536)"
    by (simp_all add: term_count_matches_def example_observations)
  show ?thesis
    using admin_action_on_term_count_mismatch [OF a b, of "[1, 2, 3]" 3 "()" "[]" "(0, 0)"] a b
    by (simp add: example_observations)
qed

text \<open>
  C4, counterexample to the claim as stated (every call on an open publication with a term
  count mismatch returns AERON_PUBLICATION_ADMIN_ACTION): a claim of 2000 bytes on the open
  example publication with mismatching term count returns AERON_PUBLICATION_ERROR, because
  the length check comes first.
\<close>

theorem admin_action_claim_counterexample:
  "\<not> is_closed example_publication \<and>
   observed_term_count example_publication (example_memory 1 65536) \<noteq>
     observed_term_id reference_externals example_publication (example_memory 1 65536) -
     initial_term_id example_publication \<and>
   fst (aeron_publication_try_claim reference_externals (Some example_publication) 2000
          (Some (0, 0)) (example_memory 1 65536)) = AERON_PUBLICATION_ERROR \<and>
   AERON_PUBLICATION_ERROR \<noteq> AERON_PUBLICATION_ADMIN_ACTION"
  by (simp add: example_observations)
     (simp add: aeron_publication_try_claim_def example_publication_def status_defs)

text \<open>
  C9. A call of aeron_publication_try_claim with a length greater than the publication's
  \<open>max_payload_length\<close> returns AERON_PUBLICATION_ERROR and leaves the shared memory and
  the buffer claim as they were; the result is the same for every memory and every
  implementation of the helpers, so no log-buffer state is read. For such a length that
  does not exceed \<open>max_message_length\<close>, aeron_publication_offer on an open publication
  whose term count matches and whose position is below the limit appends the message with
  the fragmenting appender and returns the new position computed from its offset.
\<close>

theorem try_claim_beyond_max_payload:
  "(max_payload_length pub < length_v \<longrightarrow>
      aeron_publication_try_claim ext (Some pub) length_v buffer_claim mem =
        (AERON_PUBLICATION_ERROR, buffer_claim, mem)) \<and>
   (max_payload_length pub < length_v \<and> length_v \<le> max_message_length pub \<and>
    \<not> is_closed pub \<and> term_count_matches ext pub mem \<and> below_limit ext pub mem \<longrightarrow>
      aeron_publication_offer ext (Some pub) (Some buf) length_v supplier mem =
        (let (resulting_offset, mem') =
               aeron_term_appender_append_fragmented_message ext
                 (log_buffer pub, observed_index ext pub mem)
                 (log_meta_data pub, observed_index ext pub mem)
                 buf length_v (max_payload_length pub) supplier (observed_term_id ext pub mem)
                 (session_id pub) (stream_id pub) mem
         in aeron_publication_new_position ext pub (observed_term_count pub mem)
              (ucast (observed_raw_tail ext pub mem AND 0xFFFFFFFF))
              (observed_term_id ext pub mem) (observed_position ext pub mem)
              resulting_offset mem'))"
  by (cases buffer_claim)
     (auto simp: aeron_publication_try_claim_def aeron_publication_offer_def observed_defs Let_def)

lemma example_fragmented_length: "fragmented_length 2000 1376 = 2080"
  by (simp add: fragmented_length_def align32_def AERON_DATA_HEADER_LENGTH_def)

lemma example_reserve:
  "fst (reserve_tail (3, 0) 2080 (example_memory 0 65536)) = 2080"
  by (simp add: reserve_tail_def example_memory_def example_metadata_def Let_def)

text \<open>
  C9, witness: on the example publication (payloads up to 1376, messages up to 8192 bytes) a
  claim of 2000 bytes is refused with AERON_PUBLICATION_ERROR, while an offer of 2000 bytes
  is fragmented into frames of 1408 and 672 bytes and returns position 2080.
\<close>

theorem try_claim_beyond_max_payload_witness:
  "max_payload_length example_publication < 2000 \<and>
   2000 \<le> max_message_length example_publication \<and>
   term_count_matches reference_externals example_publication (example_memory 0 65536) \<and>
   below_limit reference_externals example_publication (example_memory 0 65536) \<and>
   aeron_publication_try_claim reference_externals (Some example_publication) 2000 (Some (0, 0))
     (example_memory 0 65536) = (AERON_PUBLICATION_ERROR, Some (0, 0), example_memory 0 65536) \<and>
   fst (aeron_publication_offer reference_externals (Some example_publication)
          (Some (replicate 2000 0)) 2000 () (example_memory 0 65536)) = 2080"
proof -
  have a: "max_payload_length example_publication < 2000"
    and b: "2000 \<le> max_message_length example_publication"
    and c: "term_count_matches reference_externals example_publication (example_memory 0 65536)"
    and d: "below_limit reference_externals example_publication (example_memory 0 65536)"
    and e: "\<not> is_closed example_publication"
    by (simp_all add: below_limit_def term_count_matches_def example_observations word_sless_alt)
  have idx: "observed_index reference_externals example_publication (example_memory 0 65536) = 0"
    by (simp add: observed_defs reference_defs)
  have ptr: "log_meta_data example_publication = 3"
    by (simp add: example_publication_def)
  have app: "aeron_term_appender_append_fragmented_message reference_externals t (3, 0) buf 2000
               1376 s tid ses str m = reserve_tail (3, 0) 2080 m" for t buf s tid ses str m
    by (simp add: reference_externals_def example_fragmented_length)
  have np: "aeron_publication_new_position reference_externals p tc t_off tid 0 2080 m = (2080, m)"
    for p tc t_off tid m
    by (simp add: reference_externals_def word_sless_alt)
  have f: "fst (aeron_publication_offer reference_externals (Some example_publication)
          (Some (replicate 2000 0)) 2000 () (example_memory 0 65536)) = 2080"
    using try_claim_beyond_max_payload
      [of example_publication 2000 reference_externals "Some (0, 0)" "example_memory 0 65536"
          "replicate 2000 0" "()"] a b c d e example_reserve
    by (simp add: idx ptr example_observations app case_prod_beta np)
  show ?thesis
    using try_claim_beyond_max_payload
      [of example_publication 2000 reference_externals "Some (0, 0)" "example_memory 0 65536"
          "replicate 2000 0" "()"] a b c d f
    by simp
qed

section \<open>Results about aeron_tokenise\<close>

lemma replace_delimiter_NUL_iff: "c \<noteq> NUL \<Longrightarrow> replace_delimiter d c = NUL \<longleftrightarrow> c = d"
  by (simp add: replace_delimiter_def)

lemma hd_replaced_NUL:
  "NUL \<notin> set ys \<Longrightarrow>
   hd (map (replace_delimiter d) ys @ [NUL]) \<noteq> NUL \<longleftrightarrow> ys \<noteq> [] \<and> hd ys \<noteq> d"
  by (cases ys) (auto simp: replace_delimiter_def)

lemma loop_buffer_step:
  "c \<noteq> NUL \<Longrightarrow>
   (if d = ((rev r @ [c]) @ zs) ! length r then ((rev r @ [c]) @ zs)[length r := NUL]
    else (rev r @ [c]) @ zs) = rev r @ replace_delimiter d c # zs"
  by (simp add: nth_append list_update_append replace_delimiter_def)

lemma loop_step:
  assumes c: "c \<noteq> NUL" and ys: "NUL \<notin> set ys"
  shows "tokenise_loop d max_tokens (Suc (length r))
           ((rev r @ [c]) @ map (replace_delimiter d) ys @ [NUL]) toks num =
         (case reg_at d c r ys of
            None \<Rightarrow> tokenise_loop d max_tokens (length r)
                      (rev r @ map (replace_delimiter d) (c # ys) @ [NUL]) toks num
          | Some x \<Rightarrow>
              if max_tokens \<le> num
              then (- ERANGE, rev r @ map (replace_delimiter d) (c # ys) @ [NUL], toks)
              else tokenise_loop d max_tokens (length r)
                     (rev r @ map (replace_delimiter d) (c # ys) @ [NUL])
                     (toks(nat num \<mapsto> fst x)) (num + 1))"
proof -
  let ?zs = "map (replace_delimiter d) ys @ [NUL]"
  have nth_i: "(rev r @ replace_delimiter d c # ?zs) ! length r = replace_delimiter d c"
    by (simp add: nth_append)
  have nth_Si: "(rev r @ replace_delimiter d c # ?zs) ! (length r + 1) = hd ?zs"
    by (cases ys) (simp_all add: nth_append)
  have nxt: "rev r @ map (replace_delimiter d) (c # ys) @ [NUL] = rev r @ replace_delimiter d c # ?zs"
    by simp
  show ?thesis
    unfolding tokenise_loop.simps loop_buffer_step [OF c] Let_def nth_i nth_Si
      hd_replaced_NUL [OF ys] replace_delimiter_NUL_iff [OF c] nxt
    by (simp add: reg_at_def)
qed

lemma loop_ok:
  "NUL \<notin> set rxs \<Longrightarrow> NUL \<notin> set ys \<Longrightarrow> 0 \<le> num \<Longrightarrow>
   regs d rxs ys = [] \<or> num + int (length (regs d rxs ys)) \<le> max_tokens \<Longrightarrow>
   tokenise_loop d max_tokens (length rxs) (rev rxs @ map (replace_delimiter d) ys @ [NUL]) toks num =
     (num + int (length (regs d rxs ys)),
      map (replace_delimiter d) (rev rxs @ ys) @ [NUL],
      store toks (nat num) (map fst (regs d rxs ys)))"
proof (induction rxs arbitrary: ys toks num)
  case Nil
  then show ?case by simp
next
  case (Cons c r)
  have c: "c \<noteq> NUL" and r: "NUL \<notin> set r" and cys: "NUL \<notin> set (c # ys)"
    using Cons.prems by auto
  have buf: "rev (c # r) @ map (replace_delimiter d) ys @ [NUL] =
             (rev r @ [c]) @ map (replace_delimiter d) ys @ [NUL]" by simp
  have fin: "rev (c # r) @ ys = rev r @ c # ys" by simp
  show ?case
  proof (cases "reg_at d c r ys")
    case None
    then have len: "regs d r (c # ys) = [] \<or> num + int (length (regs d r (c # ys))) \<le> max_tokens"
      using Cons.prems(4) by simp
    have "tokenise_loop d max_tokens (length (c # r))
            (rev (c # r) @ map (replace_delimiter d) ys @ [NUL]) toks num =
          tokenise_loop d max_tokens (length r)
            (rev r @ map (replace_delimiter d) (c # ys) @ [NUL]) toks num"
      by (simp only: buf length_Cons loop_step [OF c Cons.prems(2)] None option.case)
    also have "\<dots> = (num + int (length (regs d r (c # ys))),
        map (replace_delimiter d) (rev r @ c # ys) @ [NUL],
        store toks (nat num) (map fst (regs d r (c # ys))))"
      by (rule Cons.IH [OF r cys Cons.prems(3) len])
    also have "\<dots> = (num + int (length (regs d (c # r) ys)),
        map (replace_delimiter d) (rev (c # r) @ ys) @ [NUL],
        store toks (nat num) (map fst (regs d (c # r) ys)))"
      using None by simp
    finally show ?thesis .
  next
    case (Some x)
    then have len': "(num + 1) + int (length (regs d r (c # ys))) \<le> max_tokens"
      using Cons.prems(4) by simp
    then have len: "regs d r (c # ys) = [] \<or> (num + 1) + int (length (regs d r (c # ys))) \<le> max_tokens"
      by simp
    have pos: "0 \<le> num + 1" using Cons.prems(3) by simp
    have lt: "\<not> max_tokens \<le> num" using len' by simp
    have "tokenise_loop d max_tokens (length (c # r))
            (rev (c # r) @ map (replace_delimiter d) ys @ [NUL]) toks num =
          tokenise_loop d max_tokens (length r)
            (rev r @ map (replace_delimiter d) (c # ys) @ [NUL])
            (toks(nat num \<mapsto> fst x)) (num + 1)"
      by (simp only: buf length_Cons loop_step [OF c Cons.prems(2)] Some option.case lt if_False)
    also have "\<dots> = ((num + 1) + int (length (regs d r (c # ys))),
        map (replace_delimiter d) (rev r @ c # ys) @ [NUL],
        store (toks(nat num \<mapsto> fst x)) (nat (num + 1)) (map fst (regs d r (c # ys))))"
      by (rule Cons.IH [OF r cys pos len])
    also have "\<dots> = (num + int (length (regs d (c # r) ys)),
        map (replace_delimiter d) (rev (c # r) @ ys) @ [NUL],
        store toks (nat num) (map fst (regs d (c # r) ys)))"
      using Some Cons.prems(3) by (simp add: nat_add_distrib)
    finally show ?thesis .
  qed
qed

lemma loop_err:
  "NUL \<notin> set rxs \<Longrightarrow> NUL \<notin> set ys \<Longrightarrow> regs d rxs ys \<noteq> [] \<Longrightarrow>
   max_tokens < num + int (length (regs d rxs ys)) \<Longrightarrow>
   fst (tokenise_loop d max_tokens (length rxs)
          (rev rxs @ map (replace_delimiter d) ys @ [NUL]) toks num) = - ERANGE"
proof (induction rxs arbitrary: ys toks num)
  case Nil
  then show ?case by simp
next
  case (Cons c r)
  have c: "c \<noteq> NUL" and r: "NUL \<notin> set r" and cys: "NUL \<notin> set (c # ys)"
    using Cons.prems by auto
  have buf: "rev (c # r) @ map (replace_delimiter d) ys @ [NUL] =
             (rev r @ [c]) @ map (replace_delimiter d) ys @ [NUL]" by simp
  show ?case
  proof (cases "reg_at d c r ys")
    case None
    then have len: "max_tokens < num + int (length (regs d r (c # ys)))"
      and ne: "regs d r (c # ys) \<noteq> []"
      using Cons.prems(3,4) by simp_all
    show ?thesis
      by (simp only: buf length_Cons loop_step [OF c Cons.prems(2)] None option.case
            Cons.IH [OF r cys ne len])
  next
    case (Some x)
    show ?thesis
    proof (cases "max_tokens \<le> num")
      case True
      then show ?thesis
        by (simp only: buf length_Cons loop_step [OF c Cons.prems(2)] Some option.case
              if_True fst_conv)
    next
      case False
      have len: "max_tokens < (num + 1) + int (length (regs d r (c # ys)))"
        using Cons.prems(4) Some by simp
      have ne: "regs d r (c # ys) \<noteq> []"
      proof
        assume "regs d r (c # ys) = []"
        then show False using Cons.prems(4) Some False by simp
      qed
      show ?thesis
        by (simp only: buf length_Cons loop_step [OF c Cons.prems(2)] Some option.case
              False if_False Cons.IH [OF r cys ne len])
    qed
  qed
qed

lemma split_on_not_Nil: "split_on d s \<noteq> []"
  by (cases s) simp_all

lemma hd_split_on: "hd (split_on d ys) = takeWhile (\<lambda>x. x \<noteq> d) ys"
  by (induction ys) simp_all

lemma filter_split_on_hd_tl:
  "filter (\<lambda>t. t \<noteq> []) (split_on d ys) =
   (if ys \<noteq> [] \<and> hd ys \<noteq> d then [takeWhile (\<lambda>x. x \<noteq> d) ys] else []) @
   filter (\<lambda>t. t \<noteq> []) (tl (split_on d ys))"
  by (cases ys) (simp_all add: hd_split_on)

lemma regs_tokens:
  "rxs \<noteq> [] \<Longrightarrow>
   rev (map snd (regs d rxs ys)) @ filter (\<lambda>t. t \<noteq> []) (tl (split_on d ys)) =
   filter (\<lambda>t. t \<noteq> []) (split_on d (rev rxs @ ys))"
proof (induction rxs arbitrary: ys)
  case Nil
  then show ?case by simp
next
  case (Cons c r)
  show ?case
  proof (cases "r = []")
    case True
    then show ?thesis
      by (cases ys) (simp_all add: reg_at_def hd_split_on)
  next
    case False
    have "rev (map snd (regs d (c # r) ys)) @ filter (\<lambda>t. t \<noteq> []) (tl (split_on d ys)) =
          rev (map snd (regs d r (c # ys))) @ filter (\<lambda>t. t \<noteq> []) (tl (split_on d (c # ys)))"
      using False by (cases ys) (simp_all add: reg_at_def hd_split_on)
    also have "\<dots> = filter (\<lambda>t. t \<noteq> []) (split_on d (rev r @ c # ys))"
      by (rule Cons.IH [OF False])
    finally show ?thesis by simp
  qed
qed

lemma regs_positions:
  "(p, t) \<in> set (regs d rxs ys) \<Longrightarrow>
   p \<le> length (rev rxs @ ys) \<and> takeWhile (\<lambda>x. x \<noteq> d) (drop p (rev rxs @ ys)) = t"
proof (induction rxs arbitrary: ys)
  case Nil
  then show ?case by simp
next
  case (Cons c r)
  from Cons.prems consider "reg_at d c r ys = Some (p, t)" | "(p, t) \<in> set (regs d r (c # ys))"
    by (auto split: option.splits)
  then show ?case
  proof cases
    case 1
    then show ?thesis by (auto simp: reg_at_def split: if_splits)
  next
    case 2
    from Cons.IH [OF 2] show ?thesis by simp
  qed
qed

lemma takeWhile_replaced:
  "NUL \<notin> set zs \<Longrightarrow>
   takeWhile (\<lambda>c. c \<noteq> NUL) (map (replace_delimiter d) zs @ [NUL]) = takeWhile (\<lambda>x. x \<noteq> d) zs"
  by (induction zs) (auto simp: replace_delimiter_def)

lemma string_at_final:
  assumes "NUL \<notin> set s"
  shows "string_at (map (replace_delimiter d) s @ [NUL]) p = takeWhile (\<lambda>x. x \<noteq> d) (drop p s)"
proof (cases "p \<le> length s")
  case True
  have "NUL \<notin> set (drop p s)" using assms by (meson in_set_dropD)
  then show ?thesis using True
    by (simp add: string_at_def drop_map takeWhile_replaced)
next
  case False
  then show ?thesis by (simp add: string_at_def)
qed

lemma store_below: "k < n \<Longrightarrow> store toks n ps k = toks k"
  by (induction ps arbitrary: toks n) simp_all

lemma store_nth: "k < length ps \<Longrightarrow> store toks n ps (n + k) = Some (ps ! k)"
proof (induction ps arbitrary: toks n k)
  case Nil
  then show ?case by simp
next
  case (Cons p ps)
  show ?case
  proof (cases k)
    case 0
    then show ?thesis by (simp add: store_below)
  next
    case (Suc j)
    have j: "j < length ps" using Cons.prems Suc by simp
    have "store (toks(n \<mapsto> p)) (Suc n) ps (Suc n + j) = Some (ps ! j)"
      by (rule Cons.IH [OF j])
    then show ?thesis using Suc by simp
  qed
qed

lemma store_above: "n + length ps \<le> k \<Longrightarrow> store toks n ps k = toks k"
  by (induction ps arbitrary: toks n) simp_all

lemma strlen_terminated: "NUL \<notin> set s \<Longrightarrow> strlen (s @ [NUL]) = length s"
  by (induction s) (auto simp: strlen_def)

lemma regs_all_tokens:
  "s \<noteq> [] \<Longrightarrow> map snd (regs d (rev s) []) = rev (nonempty_tokens d s)"
  using regs_tokens [of "rev s" d "[]"] by (simp add: nonempty_tokens_def rev_swap)


lemma aeron_tokenise_tokens:
  assumes nul: "NUL \<notin> set s" and ne: "s \<noteq> []" and len: "length s \<le> INT32_MAX"
  shows "(nonempty_tokens d s \<noteq> [] \<and> max_tokens < int (length (nonempty_tokens d s)) \<longrightarrow>
            fst (aeron_tokenise (Some (s @ [NUL])) d max_tokens tokens) = - ERANGE) \<and>
         (nonempty_tokens d s = [] \<or> int (length (nonempty_tokens d s)) \<le> max_tokens \<longrightarrow>
            fst (aeron_tokenise (Some (s @ [NUL])) d max_tokens tokens) =
              int (length (nonempty_tokens d s)) \<and>
            fst (snd (aeron_tokenise (Some (s @ [NUL])) d max_tokens tokens)) =
              Some (map (replace_delimiter d) s @ [NUL]) \<and>
            pointed_strings (map (replace_delimiter d) s @ [NUL])
              (snd (snd (aeron_tokenise (Some (s @ [NUL])) d max_tokens tokens)))
              (length (nonempty_tokens d s)) =
              map Some (rev (nonempty_tokens d s)))"
proof -
  let ?L = "regs d (rev s) []"
  let ?fin = "map (replace_delimiter d) s @ [NUL]"
  have nulr: "NUL \<notin> set (rev s)" using nul by simp
  have toks: "map snd ?L = rev (nonempty_tokens d s)" by (rule regs_all_tokens [OF ne])
  then have n: "length ?L = length (nonempty_tokens d s)"
    by (metis length_map length_rev)
  have unfold: "aeron_tokenise (Some (s @ [NUL])) d max_tokens tokens =
      (case tokenise_loop d max_tokens (length (rev s))
              (rev (rev s) @ map (replace_delimiter d) [] @ [NUL]) tokens 0 of
         (n, buf', tokens') \<Rightarrow> (n, Some buf', tokens'))"
    using ne len by (simp add: aeron_tokenise_def strlen_terminated [OF nul])
  show ?thesis
  proof (intro conjI impI)
    assume "nonempty_tokens d s \<noteq> [] \<and> max_tokens < int (length (nonempty_tokens d s))"
    then have lt: "max_tokens < 0 + int (length ?L)" and nonempty: "?L \<noteq> []" using n by auto
    have "fst (tokenise_loop d max_tokens (length (rev s))
        (rev (rev s) @ map (replace_delimiter d) [] @ [NUL]) tokens 0) = - ERANGE"
      by (rule loop_err [OF nulr _ nonempty lt]) simp
    then show "fst (aeron_tokenise (Some (s @ [NUL])) d max_tokens tokens) = - ERANGE"
      unfolding unfold by (simp add: case_prod_beta)
  next
    assume le: "nonempty_tokens d s = [] \<or> int (length (nonempty_tokens d s)) \<le> max_tokens"
    then have le': "?L = [] \<or> 0 + int (length ?L) \<le> max_tokens" using n by auto
    have "tokenise_loop d max_tokens (length (rev s))
            (rev (rev s) @ map (replace_delimiter d) [] @ [NUL]) tokens 0 =
          (0 + int (length ?L), map (replace_delimiter d) (rev (rev s) @ []) @ [NUL],
           store tokens (nat 0) (map fst ?L))"
      by (rule loop_ok [OF nulr _ _ le']) simp_all
    then have res: "aeron_tokenise (Some (s @ [NUL])) d max_tokens tokens =
       (int (length (nonempty_tokens d s)), Some ?fin, store tokens 0 (map fst ?L))"
      unfolding unfold using n by simp
    have each: "map_option (string_at ?fin) (store tokens 0 (map fst ?L) k) =
                Some (rev (nonempty_tokens d s) ! k)" if k: "k < length (nonempty_tokens d s)" for k
    proof -
      have kL: "k < length ?L" using k n by simp
      then have mem: "(fst (?L ! k), snd (?L ! k)) \<in> set ?L" by simp
      have "store tokens 0 (map fst ?L) (0 + k) = Some (map fst ?L ! k)"
        by (rule store_nth) (simp add: kL)
      then have a: "store tokens 0 (map fst ?L) k = Some (fst (?L ! k))" using kL by simp
      have "string_at ?fin (fst (?L ! k)) = snd (?L ! k)"
        using regs_positions [OF mem] by (simp add: string_at_final [OF nul])
      also have "\<dots> = map snd ?L ! k" using kL by simp
      finally show ?thesis using a toks by simp
    qed
    have ptr: "pointed_strings ?fin (store tokens 0 (map fst ?L)) (length (nonempty_tokens d s)) =
               map Some (rev (nonempty_tokens d s))"
      by (rule nth_equalityI) (simp_all add: pointed_strings_def each)
    show "fst (aeron_tokenise (Some (s @ [NUL])) d max_tokens tokens) =
            int (length (nonempty_tokens d s))"
      by (simp add: res)
    show "fst (snd (aeron_tokenise (Some (s @ [NUL])) d max_tokens tokens)) = Some ?fin"
      by (simp add: res)
    show "pointed_strings ?fin (snd (snd (aeron_tokenise (Some (s @ [NUL])) d max_tokens tokens)))
            (length (nonempty_tokens d s)) = map Some (rev (nonempty_tokens d s))"
      using ptr by (simp add: res)
  qed
qed

text \<open>
  C10, amended. aeron_tokenise returns -EINVAL for a NULL input and for an input longer than
  INT32_MAX bytes, and 0 for an empty string. For any other string it returns -ERANGE when the
  string holds at least one and more than \<open>max_tokens\<close> non-empty delimiter-separated
  tokens; otherwise it replaces every delimiter byte with NUL, returns the number of
  non-empty tokens and stores pointers to them in the \<open>tokens\<close> array in reverse order
  of their occurrence.
\<close>

theorem aeron_tokenise_amended:
  assumes nul: "NUL \<notin> set s"
  shows "aeron_tokenise None d max_tokens tokens = (- EINVAL, None, tokens) \<and>
         (INT32_MAX < length s \<longrightarrow>
            aeron_tokenise (Some (s @ [NUL])) d max_tokens tokens =
              (- EINVAL, Some (s @ [NUL]), tokens)) \<and>
         (s = [] \<longrightarrow>
            aeron_tokenise (Some (s @ [NUL])) d max_tokens tokens = (0, Some (s @ [NUL]), tokens)) \<and>
         (s \<noteq> [] \<and> length s \<le> INT32_MAX \<and>
          nonempty_tokens d s \<noteq> [] \<and> max_tokens < int (length (nonempty_tokens d s)) \<longrightarrow>
            fst (aeron_tokenise (Some (s @ [NUL])) d max_tokens tokens) = - ERANGE) \<and>
         (s \<noteq> [] \<and> length s \<le> INT32_MAX \<and>
          (nonempty_tokens d s = [] \<or> int (length (nonempty_tokens d s)) \<le> max_tokens) \<longrightarrow>
            fst (aeron_tokenise (Some (s @ [NUL])) d max_tokens tokens) =
              int (length (nonempty_tokens d s)) \<and>
            fst (snd (aeron_tokenise (Some (s @ [NUL])) d max_tokens tokens)) =
              Some (map (replace_delimiter d) s @ [NUL]) \<and>
            pointed_strings (map (replace_delimiter d) s @ [NUL])
              (snd (snd (aeron_tokenise (Some (s @ [NUL])) d max_tokens tokens)))
              (length (nonempty_tokens d s)) =
              map Some (rev (nonempty_tokens d s)))"
proof (intro conjI impI)
  show "aeron_tokenise None d max_tokens tokens = (- EINVAL, None, tokens)"
    by (simp add: aeron_tokenise_def)
  show "aeron_tokenise (Some (s @ [NUL])) d max_tokens tokens = (- EINVAL, Some (s @ [NUL]), tokens)"
    if "INT32_MAX < length s"
    using that by (simp add: aeron_tokenise_def strlen_terminated [OF nul])
  show "aeron_tokenise (Some (s @ [NUL])) d max_tokens tokens = (0, Some (s @ [NUL]), tokens)"
    if "s = []"
    using that by (simp add: aeron_tokenise_def strlen_def)
next
  assume a: "s \<noteq> [] \<and> length s \<le> INT32_MAX \<and>
    nonempty_tokens d s \<noteq> [] \<and> max_tokens < int (length (nonempty_tokens d s))"
  then show "fst (aeron_tokenise (Some (s @ [NUL])) d max_tokens tokens) = - ERANGE"
    using aeron_tokenise_tokens [OF nul, of d max_tokens tokens] by blast
next
  assume a: "s \<noteq> [] \<and> length s \<le> INT32_MAX \<and>
    (nonempty_tokens d s = [] \<or> int (length (nonempty_tokens d s)) \<le> max_tokens)"
  then have ne: "s \<noteq> []" and len: "length s \<le> INT32_MAX"
    and c: "nonempty_tokens d s = [] \<or> int (length (nonempty_tokens d s)) \<le> max_tokens"
    by simp_all
  note t = aeron_tokenise_tokens [OF nul ne len, of d max_tokens tokens, THEN conjunct2, rule_format, OF c]
  show "fst (aeron_tokenise (Some (s @ [NUL])) d max_tokens tokens) =
          int (length (nonempty_tokens d s))" using t by simp
  show "fst (snd (aeron_tokenise (Some (s @ [NUL])) d max_tokens tokens)) =
          Some (map (replace_delimiter d) s @ [NUL])" using t by simp
  show "pointed_strings (map (replace_delimiter d) s @ [NUL])
          (snd (snd (aeron_tokenise (Some (s @ [NUL])) d max_tokens tokens)))
          (length (nonempty_tokens d s)) = map Some (rev (nonempty_tokens d s))" using t by simp
qed

lemma split_on_no_delimiter: "d \<notin> set s \<Longrightarrow> split_on d s = [s]"
  by (induction s) auto

text \<open>
  C10, counterexample to the claim as stated (any input that is neither NULL nor empty and
  holds no more than \<open>max_tokens\<close> tokens is tokenised): a string of 2147483648 letters
  is a single token, yet the call returns -EINVAL.
\<close>

theorem aeron_tokenise_long_input_counterexample:
  "fst (aeron_tokenise (Some (replicate 2147483648 (CHR ''a'') @ [NUL])) (CHR '','') 10 Map.empty)
     = - EINVAL \<and>
   int (length (nonempty_tokens (CHR '','') (replicate 2147483648 (CHR ''a'')))) = 1 \<and>
   fst (aeron_tokenise (Some (replicate 2147483648 (CHR ''a'') @ [NUL])) (CHR '','') 10 Map.empty)
     \<noteq> int (length (nonempty_tokens (CHR '','') (replicate 2147483648 (CHR ''a''))))"
proof -
  have nul: "NUL \<notin> set (replicate 2147483648 (CHR ''a''))" by (simp add: NUL_def)
  have "strlen (replicate 2147483648 (CHR ''a'') @ [NUL]) = 2147483648"
    using strlen_terminated [OF nul] by simp
  then have r: "fst (aeron_tokenise (Some (replicate 2147483648 (CHR ''a'') @ [NUL])) (CHR '','') 10 Map.empty)
     = - EINVAL"
    by (simp add: aeron_tokenise_def INT32_MAX_def)
  have "split_on (CHR '','') (replicate 2147483648 (CHR ''a'')) = [replicate 2147483648 (CHR ''a'')]"
    by (rule split_on_no_delimiter) simp
  moreover have "replicate 2147483648 (CHR ''a'') \<noteq> []"
    by simp
  ultimately have n: "int (length (nonempty_tokens (CHR '','') (replicate 2147483648 (CHR ''a'')))) = 1"
    by (simp add: nonempty_tokens_def)
  show ?thesis using r n by (simp add: EINVAL_def)
qed

text \<open>
  C10, witness: the string \<open>a,bc,,d\<close> with room for two and for three tokens.
\<close>

theorem aeron_tokenise_amended_witness:
  "NUL \<notin> set ''a,bc,,d'' \<and>
   aeron_tokenise None (CHR '','') 10 Map.empty = (- EINVAL, None, Map.empty) \<and>
   nonempty_tokens (CHR '','') ''a,bc,,d'' = [''a'', ''bc'', ''d''] \<and>
   fst (aeron_tokenise (Some (''a,bc,,d'' @ [NUL])) (CHR '','') 2 Map.empty) = - ERANGE \<and>
   fst (aeron_tokenise (Some (''a,bc,,d'' @ [NUL])) (CHR '','') 3 Map.empty) = 3 \<and>
   fst (snd (aeron_tokenise (Some (''a,bc,,d'' @ [NUL])) (CHR '','') 3 Map.empty)) =
     Some [CHR ''a'', NUL, CHR ''b'', CHR ''c'', NUL, NUL, CHR ''d'', NUL] \<and>
   pointed_strings [CHR ''a'', NUL, CHR ''b'', CHR ''c'', NUL, NUL, CHR ''d'', NUL]
     (snd (snd (aeron_tokenise (Some (''a,bc,,d'' @ [NUL])) (CHR '','') 3 Map.empty))) 3 =
     [Some ''d'', Some ''bc'', Some ''a'']"
proof -
  have u: "[0..<3::nat] = [0, 1, 2]"
    by (simp add: numeral_3_eq_3)
  show ?thesis
    using aeron_tokenise_amended [of "''a,bc,,d''" "CHR '',''" 2 Map.empty]
      aeron_tokenise_amended [of "''a,bc,,d''" "CHR '',''" 3 Map.empty]
    by (simp add: NUL_def nonempty_tokens_def INT32_MAX_def replace_delimiter_def
          aeron_tokenise_def strlen_def pointed_strings_def string_at_def u)
qed

section \<open>Results about UDP channels\<close>

lemma fifteen_mask: "(15 :: uint8_t) = mask 4"
  by (simp add: mask_eq_exp_minus_1)

lemma low_nibble: "unat ((b :: uint8_t) AND 0x0F) = unat b mod 16"
proof -
  have "unat (b AND mask 4) = unat (take_bit 4 b)"
    by (simp add: take_bit_eq_mask)
  also have "\<dots> = take_bit 4 (unat b)"
    by (rule unsigned_take_bit_eq)
  also have "\<dots> = unat b mod 16"
    by (simp add: take_bit_eq_mod)
  finally show ?thesis by (simp add: fifteen_mask)
qed

lemma unat_byte_less: "unat (b :: uint8_t) < 256"
  using unsigned_less [of b] by simp

lemma high_nibble: "unat (drop_bit 4 (b :: uint8_t) AND 0x0F) = unat b div 16"
proof -
  have "unat b div 16 < 16" using unat_byte_less [of b] by simp
  have "unat (drop_bit 4 b AND 0x0F) = unat (drop_bit 4 b) mod 16"
    by (rule low_nibble)
  also have "\<dots> = (unat b div 16) mod 16"
    by (simp add: unat_drop_bit_eq drop_bit_eq_div unat_div)
  also have "\<dots> = unat b div 16"
    using \<open>unat b div 16 < 16\<close> by simp
  finally show ?thesis .
qed

lemma and_1_even: "((b :: uint8_t) AND 0x1 = 0) = even (unat b)"
proof -
  have "unat (b AND 1) = unat b mod 2"
    by (simp add: unsigned_and_eq and_one_eq unat_mod)
  then show ?thesis
    by (metis even_iff_mod_2_eq_zero unat_eq_0)
qed

lemma hex_digits_agree: "n < 16 \<Longrightarrow> table ! n = hex_digit n"
  by (simp add: table_def hex_digit_def)

lemma aeron_format_to_hex_loop_encodes:
  "i \<le> data_len \<Longrightarrow> data_len \<le> length data \<Longrightarrow> j = 2 * i \<Longrightarrow>
   2 * data_len \<le> str_length + 1 \<Longrightarrow>
   aeron_format_to_hex_loop str_length data data_len i j str =
     str @ hex_encode (drop i (take data_len data))"
proof (induction str_length data data_len i j str rule: aeron_format_to_hex_loop.induct)
  case (1 str_length data data_len i j str)
  show ?case
  proof (cases "i < data_len")
    case True
    then have cont: "i < data_len \<and> j < str_length" using "1.prems" by auto
    have "i < length (take data_len data)" using True "1.prems"(2) by simp
    from Cons_nth_drop_Suc [OF this]
    have dr: "drop i (take data_len data) = data ! i # drop (i + 1) (take data_len data)"
      using True by simp
    have hi: "unat (data ! i) div 16 < 16"
      using unat_byte_less [of "data ! i"] by simp
    have "aeron_format_to_hex_loop str_length data data_len i j str =
          aeron_format_to_hex_loop str_length data data_len (i + 1) (j + 2)
            (str @ [table ! unat (drop_bit 4 (data ! i) AND 0x0F),
                    table ! unat ((data ! i) AND 0x0F)])"
      using cont by (subst aeron_format_to_hex_loop.simps) (simp add: Let_def)
    also have "\<dots> = (str @ [table ! unat (drop_bit 4 (data ! i) AND 0x0F),
                    table ! unat ((data ! i) AND 0x0F)]) @
                  hex_encode (drop (i + 1) (take data_len data))"
      using cont "1.prems" by (intro "1.IH") simp_all
    also have "\<dots> = (str @ [hex_digit (unat (data ! i) div 16), hex_digit (unat (data ! i) mod 16)]) @
                  hex_encode (drop (i + 1) (take data_len data))"
      using hi by (simp only: high_nibble) (simp add: low_nibble hex_digits_agree)
    also have "\<dots> = str @ hex_encode (drop i (take data_len data))"
      unfolding dr by (simp add: hex_encode_def)
    finally show ?thesis .
  next
    case False
    then have "i = data_len" using "1.prems"(1) by simp
    then show ?thesis
      by (subst aeron_format_to_hex_loop.simps) (simp add: hex_encode_def)
  qed
qed

lemma aeron_format_to_hex_encodes:
  "length data = data_len \<Longrightarrow> 2 * data_len \<le> str_length + 1 \<Longrightarrow>
   aeron_format_to_hex str_length data data_len = hex_encode data"
  by (simp add: aeron_format_to_hex_def aeron_format_to_hex_loop_encodes)


lemma length_decimal_nat: "0 < k \<Longrightarrow> n < 10 ^ k \<Longrightarrow> length (decimal_nat n) \<le> k"
proof (induction k arbitrary: n)
  case 0
  then show ?case by simp
next
  case (Suc k)
  show ?case
  proof (cases "n < 10")
    case True
    then show ?thesis by (subst decimal_nat.simps) simp
  next
    case False
    then have k: "0 < k" using Suc.prems(2) by (cases k) simp_all
    have "n div 10 < 10 ^ k" using Suc.prems(2) by (simp add: less_mult_imp_div_less mult.commute)
    from Suc.IH [OF k this] show ?thesis using False
      by (subst decimal_nat.simps) simp
  qed
qed

lemma length_decimal_int32: "length (decimal_int (sint (n :: int32_t))) \<le> 11"
proof -
  have lo: "- (2 ^ 31) \<le> sint n" and hi: "sint n < 2 ^ 31"
    using sint_ge [of n] sint_lt [of n] by simp_all
  have "nat \<bar>sint n\<bar> < 10 ^ 10" using lo hi by simp
  then have "length (decimal_nat (nat \<bar>sint n\<bar>)) \<le> 10"
    by (intro length_decimal_nat) simp_all
  then show ?thesis
    by (auto simp: decimal_int_def abs_if)
qed

lemma unique_suffix_fits:
  "take 13 (decimal_int (sint (n :: int32_t))) = decimal_int (sint n)"
  using length_decimal_int32 [of n] by simp

lemma resolved_hex:
  "sockaddr_resolved a \<Longrightarrow> 31 \<le> hex_length \<Longrightarrow>
   (if AF_INET6 = ss_family a
    then aeron_format_to_hex hex_length (sin6_addr a) sizeof_in6_addr
    else aeron_format_to_hex hex_length (sin_addr a) sizeof_in_addr) = hex_encode (raw_address a)"
  by (auto simp: sockaddr_resolved_def raw_address_def sizeof_in_addr_def sizeof_in6_addr_def
        aeron_format_to_hex_encodes)

text \<open>
  C8, amended. For resolved local and remote addresses (IPv4 with 4 or IPv6 with 16 address
  bytes) and local hex buffers that hold the digits, aeron_uri_udp_canonicalise formats the
  text ``UDP-'', the lower-case hex of the raw local address bytes, ``-'', the decimal local
  port, ``-'', the hex of the raw remote address bytes, ``-'', the decimal remote port, and
  the suffix ``-n'' exactly when \<open>make_unique\<close> is set. It returns the length of that
  text and stores the text cut to \<open>length - 1\<close> characters, so that the destination
  holds exactly the text whenever it is longer than the text.
\<close>

theorem aeron_uri_udp_canonicalise_amended:
  assumes "sockaddr_resolved local_addr" and "sockaddr_resolved remote_addr"
    and "31 \<le> hex_length"
  shows "aeron_uri_udp_canonicalise hex_length old_form length_v local_addr remote_addr
           make_unique n =
         (int (length (canonical_string local_addr remote_addr make_unique n)),
          (if length_v = 0 then old_form
           else take (length_v - 1) (canonical_string local_addr remote_addr make_unique n)),
          (if make_unique then n + 1 else n)) \<and>
         (length (canonical_string local_addr remote_addr make_unique n) < length_v \<longrightarrow>
          fst (snd (aeron_uri_udp_canonicalise hex_length old_form length_v local_addr remote_addr
                      make_unique n)) =
          canonical_string local_addr remote_addr make_unique n)"
proof -
  have l: "aeron_format_to_hex hex_length
             (if AF_INET6 = ss_family local_addr then sin6_addr local_addr else sin_addr local_addr)
             (if AF_INET6 = ss_family local_addr then sizeof_in6_addr else sizeof_in_addr) =
           hex_encode (raw_address local_addr)"
    using resolved_hex [OF assms(1,3)] by (simp split: if_splits)
  have r: "aeron_format_to_hex hex_length
             (if AF_INET6 = ss_family remote_addr then sin6_addr remote_addr else sin_addr remote_addr)
             (if AF_INET6 = ss_family remote_addr then sizeof_in6_addr else sizeof_in_addr) =
           hex_encode (raw_address remote_addr)"
    using resolved_hex [OF assms(2,3)] by (simp split: if_splits)
  have eq: "aeron_uri_udp_canonicalise hex_length old_form length_v local_addr remote_addr
           make_unique n =
         (int (length (canonical_string local_addr remote_addr make_unique n)),
          (if length_v = 0 then old_form
           else take (length_v - 1) (canonical_string local_addr remote_addr make_unique n)),
          (if make_unique then n + 1 else n))"
    using l r
    by (auto simp: aeron_uri_udp_canonicalise_def canonical_string_def port_number_def
          raw_address_def unique_suffix_fits snprintf_def Let_def simp del: append_assoc)
  show ?thesis
    unfolding eq by simp
qed


lemma example_canonical_string:
  "canonical_string example_local example_remote True 7 = ''UDP-00000000-0-7f000001-40123-7''"
  by (simp add: canonical_string_def example_local_def example_remote_def raw_address_def
        port_number_def ntohs_def hex_encode_def hex_digit_def decimal_nat.simps digit_char_def
        decimal_int_def)

text \<open>
  C8, witness: local 0.0.0.0:0, remote 127.0.0.1:40123, unique suffix 7, a destination of
  384 bytes.
\<close>

theorem aeron_uri_udp_canonicalise_amended_witness:
  "sockaddr_resolved example_local \<and> sockaddr_resolved example_remote \<and> (31::nat) \<le> 57 \<and>
   aeron_uri_udp_canonicalise 57 [] 384 example_local example_remote True 7 =
     (31, ''UDP-00000000-0-7f000001-40123-7'', 8)"
  using aeron_uri_udp_canonicalise_amended [of example_local example_remote 57 "[]" 384 True 7]
  by (simp add: example_canonical_string) (simp add: sockaddr_resolved_def example_local_def example_remote_def)

text \<open>
  C8, counterexample to the claim as stated (the exact text for every pair of addresses): with
  a destination of 4 bytes the function stores only ``UDP''.
\<close>

theorem aeron_uri_udp_canonicalise_short_buffer_counterexample:
  "fst (snd (aeron_uri_udp_canonicalise 57 [] 4 example_local example_remote False 0)) = ''UDP'' \<and>
   fst (snd (aeron_uri_udp_canonicalise 57 [] 4 example_local example_remote False 0)) \<noteq>
     ''UDP-'' @ hex_encode [0, 0, 0, 0] @ ''-'' @ decimal_nat 0 @ ''-'' @
     hex_encode [127, 0, 0, 1] @ ''-'' @ decimal_nat 40123"
  by (simp add: aeron_uri_udp_canonicalise_def example_local_def example_remote_def snprintf_def
        Let_def)

text \<open>
  C6, amended. For a data address of family AF_INET or AF_INET6 whose last octet is odd, the
  derived control address has the family and port of the data address and its address bytes
  with the last octet incremented by one (wrapping within the octet); for a last octet that
  is even the derivation returns -1 and leaves the control address untouched.
\<close>

theorem aeron_multicast_control_address_amended:
  "(ss_family data_addr = AF_INET \<and> length (sin_addr data_addr) = 4 \<longrightarrow>
      aeron_multicast_control_address data_addr control_addr =
        (if odd (unat (sin_addr data_addr ! 3))
         then (0, control_addr\<lparr> ss_family := AF_INET,
                   sin_addr := (sin_addr data_addr)[3 := sin_addr data_addr ! 3 + 1],
                   sin_port := sin_port data_addr \<rparr>)
         else (- 1, control_addr))) \<and>
   (ss_family data_addr = AF_INET6 \<and> length (sin6_addr data_addr) = 16 \<longrightarrow>
      aeron_multicast_control_address data_addr control_addr =
        (if odd (unat (sin6_addr data_addr ! 15))
         then (0, control_addr\<lparr> ss_family := AF_INET6,
                   sin6_addr := (sin6_addr data_addr)[15 := sin6_addr data_addr ! 15 + 1],
                   sin6_port := sin6_port data_addr \<rparr>)
         else (- 1, control_addr)))"
  by (simp add: aeron_multicast_control_address_def aeron_ipv4_multicast_control_address_def
        aeron_ipv6_multicast_control_address_def sizeof_in_addr_def sizeof_in6_addr_def
        and_1_even Let_def)

text \<open>
  C6, witness: 224.0.1.1 gives 224.0.1.2, 127.0.0.1 gives 127.0.0.2, and 224.0.1.2 is
  refused.
\<close>

theorem aeron_multicast_control_address_amended_witness:
  "ss_family example_multicast = AF_INET \<and> length (sin_addr example_multicast) = 4 \<and>
   odd (unat (sin_addr example_multicast ! 3)) \<and>
   aeron_multicast_control_address example_multicast zeroed_sockaddr =
     (0, zeroed_sockaddr\<lparr> ss_family := AF_INET, sin_addr := [224, 0, 1, 2],
                            sin_port := (0x9C, 0xBB) \<rparr>) \<and>
   aeron_multicast_control_address example_remote zeroed_sockaddr =
     (0, zeroed_sockaddr\<lparr> ss_family := AF_INET, sin_addr := [127, 0, 0, 2],
                            sin_port := (0x9C, 0xBB) \<rparr>) \<and>
   aeron_multicast_control_address
     (example_multicast\<lparr> sin_addr := [224, 0, 1, 2] \<rparr>) zeroed_sockaddr = (- 1, zeroed_sockaddr)"
  using aeron_multicast_control_address_amended [of example_multicast zeroed_sockaddr]
    aeron_multicast_control_address_amended [of example_remote zeroed_sockaddr]
    aeron_multicast_control_address_amended
      [of "example_multicast\<lparr> sin_addr := [224, 0, 1, 2] \<rparr>" zeroed_sockaddr]
  by (simp add: example_multicast_def example_remote_def)

text \<open>
  C6, counterexample to the claim as stated (the last-octet low bit is toggled): for
  224.0.1.1 the control address is 224.0.1.2, while toggling the low bit of the last octet
  gives 224.0.1.0.
\<close>

theorem aeron_multicast_control_address_toggle_counterexample:
  "sin_addr (snd (aeron_multicast_control_address example_multicast zeroed_sockaddr)) =
     [224, 0, 1, 2] \<and>
   sin_addr (snd (aeron_multicast_control_address example_multicast zeroed_sockaddr)) \<noteq>
     (sin_addr example_multicast)[3 := (sin_addr example_multicast ! 3) XOR 1]"
  by (simp add: aeron_multicast_control_address_def aeron_ipv4_multicast_control_address_def
        example_multicast_def sizeof_in_addr_def Let_def)


text \<open>
  C7, amended. For a URI that parses as a UDP URI and either specifies none of endpoint,
  control and tags while its control-mode is not manual, or has control-mode dynamic and no
  control, aeron_udp_channel_parse returns -1, and whenever the allocation of the channel
  succeeded it stores NULL into \<open>*channel\<close>.
\<close>

theorem aeron_udp_channel_parse_amended:
  assumes "aeron_uri_parse ext uri_length_v uri_v = Some parsed"
    and "uri_type parsed = AERON_URI_UDP"
    and "(endpoint (params_udp parsed) = None \<and> control (params_udp parsed) = None \<and>
          channel_tag (params_udp parsed) = None \<and>
          control_mode (params_udp parsed) \<noteq> Some ''manual'') \<or>
         (control_mode (params_udp parsed) = Some ''dynamic'' \<and>
          control (params_udp parsed) = None)"
  shows "fst (aeron_udp_channel_parse ext alloc uri_length_v uri_v channel_before unique) = - 1 \<and>
         (alloc \<noteq> None \<longrightarrow>
          fst (snd (aeron_udp_channel_parse ext alloc uri_length_v uri_v channel_before unique)) =
            None)"
  using assms
  by (cases alloc; cases "control_mode (params_udp parsed)")
     (auto simp: aeron_udp_channel_parse_def udp_channel_error_cleanup_def Let_def
        AERON_UDP_CHANNEL_CONTROL_MODE_MANUAL_VALUE_def
        AERON_UDP_CHANNEL_CONTROL_MODE_DYNAMIC_VALUE_def)


text \<open>
  C7, witness: \<open>aeron:udp\<close> and \<open>aeron:udp?control-mode=dynamic\<close> in the example
  environment.
\<close>

theorem aeron_udp_channel_parse_amended_witness:
  "aeron_uri_parse example_udp_externals 9 ''aeron:udp'' =
     Some \<lparr> mutable_uri = ''aeron:udp'', uri_type = AERON_URI_UDP, params_udp = no_udp_params \<rparr> \<and>
   aeron_udp_channel_parse example_udp_externals (Some fresh_channel) 9 ''aeron:udp'' None 0 =
     (- 1, None, 0) \<and>
   aeron_udp_channel_parse example_udp_externals (Some fresh_channel) 30
     ''aeron:udp?control-mode=dynamic'' (Some fresh_channel) 0 = (- 1, None, 0)"
proof -
  have p1: "aeron_uri_parse example_udp_externals 9 ''aeron:udp'' =
     Some \<lparr> mutable_uri = ''aeron:udp'', uri_type = AERON_URI_UDP, params_udp = no_udp_params \<rparr>"
    by (simp add: example_udp_externals_def example_uri_parse_def)
  have p2: "aeron_uri_parse example_udp_externals 30 ''aeron:udp?control-mode=dynamic'' =
     Some \<lparr> mutable_uri = ''aeron:udp?control-mode=dynamic'', uri_type = AERON_URI_UDP,
            params_udp = no_udp_params\<lparr> control_mode := Some ''dynamic'' \<rparr> \<rparr>"
    by (simp add: example_udp_externals_def example_uri_parse_def)
  have u: "aeron_udp_channel_parse example_udp_externals None n s before 0 = (- 1, before, 0)"
    for n s before
    by (simp add: aeron_udp_channel_parse_def)
  have t: "fst r = - 1 \<and> fst (snd r) = None \<and> snd (snd r) = (0 :: int32_t) \<Longrightarrow> r = (- 1, None, 0)"
    for r :: "int \<times> aeron_udp_channel_t option \<times> int32_t"
    by (cases r) auto
  have c1: "snd (snd (aeron_udp_channel_parse example_udp_externals (Some fresh_channel) 9
                        ''aeron:udp'' None 0)) = 0"
    by (simp add: aeron_udp_channel_parse_def p1 Let_def udp_channel_error_cleanup_def
          no_udp_params_def)
  have c2: "snd (snd (aeron_udp_channel_parse example_udp_externals (Some fresh_channel) 30
                        ''aeron:udp?control-mode=dynamic'' (Some fresh_channel) 0)) = 0"
    by (simp add: aeron_udp_channel_parse_def p2 Let_def udp_channel_error_cleanup_def
          no_udp_params_def AERON_UDP_CHANNEL_CONTROL_MODE_DYNAMIC_VALUE_def)
  show ?thesis
    using aeron_udp_channel_parse_amended [OF p1, of "Some fresh_channel" None 0]
      aeron_udp_channel_parse_amended [OF p2, of "Some fresh_channel" "Some fresh_channel" 0]
      c1 c2 p1
    by (simp add: no_udp_params_def t)
qed

text \<open>
  C7, counterexample to the claim as stated (\<open>*channel\<close> is set to NULL): when the
  allocation fails the function returns -1 before it touches \<open>*channel\<close>, which keeps
  its previous, non-NULL content.
\<close>

theorem aeron_udp_channel_parse_alloc_counterexample:
  "uri_type (the (aeron_uri_parse example_udp_externals 9 ''aeron:udp'')) = AERON_URI_UDP \<and>
   endpoint (params_udp (the (aeron_uri_parse example_udp_externals 9 ''aeron:udp''))) = None \<and>
   control (params_udp (the (aeron_uri_parse example_udp_externals 9 ''aeron:udp''))) = None \<and>
   channel_tag (params_udp (the (aeron_uri_parse example_udp_externals 9 ''aeron:udp''))) = None \<and>
   control_mode (params_udp (the (aeron_uri_parse example_udp_externals 9 ''aeron:udp''))) = None \<and>
   aeron_udp_channel_parse example_udp_externals None 9 ''aeron:udp'' (Some fresh_channel) 0 =
     (- 1, Some fresh_channel, 0) \<and>
   fst (snd (aeron_udp_channel_parse example_udp_externals None 9 ''aeron:udp''
               (Some fresh_channel) 0)) \<noteq> None"
  by (simp add: aeron_udp_channel_parse_def example_udp_externals_def example_uri_parse_def
        no_udp_params_def)

section \<open>Results about session-id selection\<close>

lemma skip_session_ids_finds:
  "session_id_free c e stream (candidate + of_nat k) \<Longrightarrow>
   \<exists>sid. skip_session_ids c e stream candidate = Some sid \<and> session_id_free c e stream sid"
proof (induction k arbitrary: candidate)
  case 0
  then show ?case
    by (subst skip_session_ids.simps) (simp add: session_id_free_def)
next
  case (Suc k)
  show ?case
  proof (cases "session_id_free c e stream candidate")
    case True
    then show ?thesis
      by (subst skip_session_ids.simps) (simp add: session_id_free_def)
  next
    case False
    have "session_id_free c e stream (advance_session_id candidate + of_nat k)"
      using Suc.prems by (simp add: advance_session_id_def ac_simps)
    from Suc.IH [OF this] show ?thesis using False
      by (subst skip_session_ids.simps) (auto simp: session_id_free_def)
  qed
qed

lemma skip_session_ids_sound:
  assumes "skip_session_ids c e stream candidate = Some sid"
  shows "session_id_free c e stream sid"
  using assms
proof (rule skip_session_ids.raw_induct [rotated])
  fix f c' e' stream' candidate' sid'
  assume IH: "\<And>c e stream candidate sid.
                f c e stream candidate = Some sid \<Longrightarrow> session_id_free c e stream sid"
    and body: "(if session_id_reserved c' candidate' \<or> session_id_in_use c' e' stream' candidate'
                then f c' e' stream' (advance_session_id candidate') else Some candidate') =
               Some sid'"
  show "session_id_free c' e' stream' sid'"
  proof (cases "session_id_reserved c' candidate' \<or> session_id_in_use c' e' stream' candidate'")
    case True
    then have "f c' e' stream' (advance_session_id candidate') = Some sid'"
      using body by simp
    then show ?thesis by (rule IH)
  next
    case False
    then show ?thesis using body by (simp add: session_id_free_def)
  qed
qed

text \<open>
  C5. Whenever a session id is assigned dynamically, the assigned id is outside the reserved
  range, differs from every session id in use on the same endpoint and stream, and the next
  session id becomes its successor; an id is assigned whenever some id is free; and advancing
  INT32_MAX gives INT32_MIN.
\<close>

theorem assign_dynamic_session_id_avoids:
  "(assign_dynamic_session_id c e stream = Some (sid, c') \<longrightarrow>
      \<not> session_id_reserved c sid \<and> \<not> session_id_in_use c e stream sid \<and>
      next_session_id c' = advance_session_id sid) \<and>
   ((\<exists>v. \<not> session_id_reserved c v \<and> \<not> session_id_in_use c e stream v) \<longrightarrow>
      assign_dynamic_session_id c e stream \<noteq> None) \<and>
   advance_session_id INT32_MAX_word = INT32_MIN_word \<and>
   sint INT32_MAX_word = 2 ^ 31 - 1 \<and> sint INT32_MIN_word = - (2 ^ 31)"
proof (intro conjI impI)
  assume "assign_dynamic_session_id c e stream = Some (sid, c')"
  then have s: "skip_session_ids c e stream (next_session_id c) = Some sid"
    and n: "next_session_id c' = advance_session_id sid"
    by (auto simp: assign_dynamic_session_id_def split: option.splits)
  from skip_session_ids_sound [OF s]
  show "\<not> session_id_reserved c sid" and "\<not> session_id_in_use c e stream sid"
    by (simp_all add: session_id_free_def)
  show "next_session_id c' = advance_session_id sid" by (rule n)
next
  assume "\<exists>v. \<not> session_id_reserved c v \<and> \<not> session_id_in_use c e stream v"
  then obtain v where v: "session_id_free c e stream v"
    by (auto simp: session_id_free_def)
  have "next_session_id c + of_nat (unat (v - next_session_id c)) = v" by simp
  with v have "session_id_free c e stream (next_session_id c + of_nat (unat (v - next_session_id c)))"
    by simp
  from skip_session_ids_finds [OF this]
  show "assign_dynamic_session_id c e stream \<noteq> None"
    by (auto simp: assign_dynamic_session_id_def)
next
  show "advance_session_id INT32_MAX_word = INT32_MIN_word"
    by (simp add: advance_session_id_def INT32_MAX_word_def INT32_MIN_word_def)
  show "sint INT32_MAX_word = 2 ^ 31 - 1" by (simp add: INT32_MAX_word_def)
  show "sint INT32_MIN_word = - (2 ^ 31)" by (simp add: INT32_MIN_word_def)
qed

lemma wrapping_test_skip:
  "skip_session_ids wrapping_test_conductor 7 1001 0x7FFFFFFE = Some 0x80000002"
  by (simp add: skip_session_ids.simps wrapping_test_conductor_def session_id_reserved_def
      session_id_in_use_def advance_session_id_def word_sle_eq)

text \<open>
  C5, witness: the conductor of the wrapping test assigns INT32_MIN + 2.
\<close>

theorem assign_dynamic_session_id_avoids_witness:
  "assign_dynamic_session_id wrapping_test_conductor 7 1001 =
     Some (0x80000002, wrapping_test_conductor\<lparr> next_session_id := 0x80000003,
        network_publications :=
          \<lparr> pub_endpoint = 7, pub_stream_id = 1001, pub_session_id = 0x80000002 \<rparr>
          # network_publications wrapping_test_conductor \<rparr>) \<and>
   \<not> session_id_reserved wrapping_test_conductor 0x80000002 \<and>
   \<not> session_id_in_use wrapping_test_conductor 7 1001 0x80000002"
proof -
  have a: "assign_dynamic_session_id wrapping_test_conductor 7 1001 =
     Some (0x80000002, wrapping_test_conductor\<lparr> next_session_id := 0x80000003,
        network_publications :=
          \<lparr> pub_endpoint = 7, pub_stream_id = 1001, pub_session_id = 0x80000002 \<rparr>
          # network_publications wrapping_test_conductor \<rparr>)"
  proof -
    have n: "next_session_id wrapping_test_conductor = 0x7FFFFFFE"
      by (simp add: wrapping_test_conductor_def)
    show ?thesis
      by (simp add: assign_dynamic_session_id_def n wrapping_test_skip advance_session_id_def)
  qed
  show ?thesis
    using a assign_dynamic_session_id_avoids [of wrapping_test_conductor 7 1001 "0x80000002"
      "wrapping_test_conductor\<lparr> next_session_id := 0x80000003,
        network_publications :=
          \<lparr> pub_endpoint = 7, pub_stream_id = 1001, pub_session_id = 0x80000002 \<rparr>
          # network_publications wrapping_test_conductor \<rparr>"]
    by simp
qed

end
